theory Spec2Isabelle
  imports Main "HOL-Library.Word"
begin

unbundle bit_operations_syntax

section \<open>Data model\<close>

subsection \<open>Single-precision floats\<close>

text \<open>
  The source computes vertex coordinates and the depth counter in C++ \<^verbatim>\<open>float\<close>
  (IEEE 754 binary32, round to nearest, ties to even). Every finite binary32 value is an
  integer multiple of \<open>2^-149\<close>, so a finite float is modelled by that integer, and an
  operation is the exact integer or rational result rounded to 24 significant bits.
  Infinities and NaN are one value \<open>NonFinite\<close>; the model has one zero.
\<close>

datatype float32 = Fin int | NonFinite

fun bitlen :: "nat \<Rightarrow> nat" where
  "bitlen n = (if n = 0 then 0 else Suc (bitlen (n div 2)))"

declare bitlen.simps [simp del]

text \<open>\<open>rne_div p d\<close>: the integer nearest to \<open>p / d\<close>, a tie going to the even one.\<close>

definition rne_div :: "nat \<Rightarrow> nat \<Rightarrow> nat" where
  "rne_div p d =
     (let f = p div d; r = p mod d
      in if d < 2 * r \<or> (2 * r = d \<and> odd f) then f + 1 else f)"

text \<open>
  \<open>round_mag p q\<close>: the magnitude \<open>p / q\<close> (in units of \<open>2^-149\<close>) rounded to a
  binary32 magnitude. Below \<open>2^24\<close> units (the subnormals and the first normal binade)
  the floats are the integers; above, a value of bit length \<open>b\<close> is rounded to a
  multiple of \<open>2^(b - 24)\<close>.
\<close>

definition round_mag :: "nat \<Rightarrow> nat \<Rightarrow> nat" where
  "round_mag p q = (let k = bitlen (p div q) - 24 in rne_div p (q * 2 ^ k) * 2 ^ k)"

text \<open>\<open>round32 p q\<close>: the float nearest to \<open>p / q\<close> units (\<open>q > 0\<close>); overflow gives an infinity.\<close>

definition round32 :: "int \<Rightarrow> nat \<Rightarrow> float32" where
  "round32 p q =
     (let m = round_mag (nat \<bar>p\<bar>) q
      in if 2 ^ 277 \<le> m then NonFinite else Fin (sgn p * int m))"

definition fadd :: "float32 \<Rightarrow> float32 \<Rightarrow> float32" where
  "fadd a b = (case (a, b) of (Fin x, Fin y) \<Rightarrow> round32 (x + y) 1 | _ \<Rightarrow> NonFinite)"

definition fsub :: "float32 \<Rightarrow> float32 \<Rightarrow> float32" where
  "fsub a b = (case (a, b) of (Fin x, Fin y) \<Rightarrow> round32 (x - y) 1 | _ \<Rightarrow> NonFinite)"

definition fmul :: "float32 \<Rightarrow> float32 \<Rightarrow> float32" where
  "fmul a b = (case (a, b) of (Fin x, Fin y) \<Rightarrow> round32 (x * y) (2 ^ 149) | _ \<Rightarrow> NonFinite)"

text \<open>
  Division by zero gives an infinity or NaN. A non-finite divisor does not occur in this
  program: both divisors of the source are \<^verbatim>\<open>float(int)\<close> conversions.
\<close>

definition fdiv :: "float32 \<Rightarrow> float32 \<Rightarrow> float32" where
  "fdiv a b =
     (case (a, b) of
        (Fin x, Fin y) \<Rightarrow>
          if y = 0 then NonFinite else round32 (x * sgn y * 2 ^ 149) (nat \<bar>y\<bar>)
      | _ \<Rightarrow> NonFinite)"

text \<open>\<^verbatim>\<open>float(i)\<close> for an integer \<open>i\<close>, and the literal \<^verbatim>\<open>p/q f\<close> (the float nearest to \<open>p / q\<close>).\<close>

definition float_of_int :: "int \<Rightarrow> float32" where
  "float_of_int i = round32 (i * 2 ^ 149) 1"

definition flit :: "int \<Rightarrow> nat \<Rightarrow> float32" where
  "flit p q = round32 (p * 2 ^ 149) q"


subsection \<open>Geometry, textures, shader programs\<close>

type_synonym GLuint = nat
type_synonym GLint = int
type_synonym EGLint = int

text \<open>
  \<^verbatim>\<open>Vector3{x, y, z}\<close>, \<^verbatim>\<open>Vector2{u, v}\<close> and \<^verbatim>\<open>Vertex(position, uv)\<close>, as the source
  builds them.
\<close>

datatype Vector3 = Vector3 float32 float32 float32

datatype Vector2 = Vector2 float32 float32

datatype Vertex = Vertex Vector3 Vector2

type_synonym Index = nat

text \<open>
  A texture asset is the object a \<^verbatim>\<open>shared_ptr<TextureAsset>\<close> points to; two handles
  are the same resource when they are the same object. A null handle is \<open>None\<close>.
\<close>

datatype TextureAsset = TextureAsset (getTextureID: GLuint)

text \<open>
  Modelled from the spec: the class Model (Model.h is not among the sources): "an ordered
  sequence of Vertex plus an ordered sequence of small unsigned indices plus an optional
  shared reference to a Texture".
\<close>

record Model =
  vertices_' :: "Vertex list"
  indices_' :: "Index list"
  spTexture_' :: "TextureAsset option"

text \<open>
  Modelled from the spec: the fields of Shader (Shader.h is not among the sources), in the
  order the constructor call of \<^verbatim>\<open>Shader::loadShader\<close> passes them: "a linked GPU program
  plus the resolved locations of a required position attribute, an optional UV attribute
  and a required projection-matrix uniform". A member \<^verbatim>\<open>name_\<close> of the source is
  written \<open>name_'\<close> throughout: an Isabelle name cannot end in an underscore.
\<close>

record Shader =
  program_' :: GLuint
  position_' :: GLint
  uv_' :: GLint
  projectionMatrix_' :: GLint

subsection \<open>External calls\<close>

text \<open>
  The program acts on the GPU, the EGL display and the asset loader only through calls.
  A run is modelled by the list of the state-changing calls it has made, oldest first;
  what a call or a query returns is read from an environment. Diagnostic output
  (\<^verbatim>\<open>aout\<close>) is not modelled.
\<close>

datatype shader_type = GL_VERTEX_SHADER | GL_FRAGMENT_SHADER

datatype vertex_field = PositionField | UVField

datatype matrix = OrthographicMatrix float32 float32 float32 float32

datatype call =
    GlCreateShader shader_type
  | GlShaderSource GLuint string
  | GlCompileShader GLuint
  | GlDeleteShader GLuint
  | GlCreateProgram
  | GlAttachShader GLuint GLuint
  | GlLinkProgram GLuint
  | GlDeleteProgram GLuint
  | GlUseProgram GLuint
  | GlVertexAttribPointer GLint nat "Vertex list" vertex_field
  | GlEnableVertexAttribArray GLint
  | GlDisableVertexAttribArray GLint
  | GlActiveTexture
  | GlBindTexture GLuint
  | GlDrawElements nat "Index list"
  | GlUniformMatrix4fv GLint matrix
  | GlViewport EGLint EGLint
  | GlClear
  | GlSetupPipelineState
  | EglSetup
  | EglMakeCurrent nat nat nat nat
  | EglDestroyContext nat nat
  | EglDestroySurface nat nat
  | EglTerminate nat
  | EglSwapBuffers nat nat
  | LoadAsset string "TextureAsset option"
  | ClearMotionEvents
  | ClearKeyEvents

datatype error = AssertionFailed | NullDereference | OutOfBounds

section \<open>Shader.cpp\<close>

text \<open>What the GL driver answers while a program is built.\<close>

record gl_env =
  assertGlError_holds :: "shader_type \<Rightarrow> bool"
  glCreateShader_ret :: "shader_type \<Rightarrow> GLuint"
  compile_status :: "GLuint \<Rightarrow> bool"
  glCreateProgram_ret :: GLuint
  link_status :: "GLuint \<Rightarrow> bool"
  glGetAttribLocation_ret :: "GLuint \<Rightarrow> string \<Rightarrow> GLint"
  glGetUniformLocation_ret :: "GLuint \<Rightarrow> string \<Rightarrow> GLint"

text \<open>
  \<^verbatim>\<open>GLuint Shader::loadShader(GLenum shaderType, const std::string &shaderSource)\<close>.
  \<^verbatim>\<open>Utility::assertGlError\<close> is not among the sources: whether its assertion holds is
  read from the environment.
\<close>

definition loadShader_stage ::
  "gl_env \<Rightarrow> shader_type \<Rightarrow> string \<Rightarrow> call list \<Rightarrow> (error + GLuint) \<times> call list" where
  "loadShader_stage env shaderType shaderSource gl =
     (if \<not> assertGlError_holds env shaderType then (Inl AssertionFailed, gl)
      else
        let shader = glCreateShader_ret env shaderType;
            gl1 = gl @ [GlCreateShader shaderType]
        in if shader \<noteq> 0 then
             (let gl2 = gl1 @ [GlShaderSource shader shaderSource, GlCompileShader shader]
              in if \<not> compile_status env shader
                 then (Inr 0, gl2 @ [GlDeleteShader shader])
                 else (Inr shader, gl2))
           else (Inr shader, gl1))"

text \<open>
  \<^verbatim>\<open>Shader *Shader::loadShader(vertexSource, fragmentSource, positionAttributeName,
  uvAttributeName, projectionMatrixUniformName)\<close>; a null result is \<open>None\<close>.
\<close>

definition loadShader ::
  "gl_env \<Rightarrow> string \<Rightarrow> string \<Rightarrow> string \<Rightarrow> string \<Rightarrow> string \<Rightarrow> call list
     \<Rightarrow> (error + Shader option) \<times> call list" where
  "loadShader env vertexSource fragmentSource positionAttributeName uvAttributeName
       projectionMatrixUniformName gl =
     (case loadShader_stage env GL_VERTEX_SHADER vertexSource gl of
        (Inl e, gl1) \<Rightarrow> (Inl e, gl1)
      | (Inr vertexShader, gl1) \<Rightarrow>
          if vertexShader = 0 then (Inr None, gl1)
          else
            (case loadShader_stage env GL_FRAGMENT_SHADER fragmentSource gl1 of
               (Inl e, gl2) \<Rightarrow> (Inl e, gl2)
             | (Inr fragmentShader, gl2) \<Rightarrow>
                 if fragmentShader = 0 then (Inr None, gl2 @ [GlDeleteShader vertexShader])
                 else
                   let program = glCreateProgram_ret env;
                       gl3 = gl2 @ [GlCreateProgram];
                       release = [GlDeleteShader vertexShader, GlDeleteShader fragmentShader]
                   in if program \<noteq> 0 then
                        (let gl4 = gl3 @ [GlAttachShader program vertexShader,
                                          GlAttachShader program fragmentShader,
                                          GlLinkProgram program]
                         in if \<not> link_status env program
                            then (Inr None, gl4 @ [GlDeleteProgram program] @ release)
                            else
                              let positionAttribute =
                                    glGetAttribLocation_ret env program positionAttributeName
                              in if positionAttribute = - 1
                                 then (Inr None, gl4 @ [GlDeleteProgram program])
                                 else
                                   let uvAttribute =
                                         (if uvAttributeName \<noteq> []
                                          then glGetAttribLocation_ret env program uvAttributeName
                                          else - 1);
                                       projectionMatrixUniform =
                                         glGetUniformLocation_ret env program
                                           projectionMatrixUniformName
                                   in if projectionMatrixUniform = - 1
                                      then (Inr None, gl4 @ [GlDeleteProgram program])
                                      else if positionAttribute \<noteq> - 1
                                              \<and> projectionMatrixUniform \<noteq> - 1
                                      then (Inr (Some \<lparr>program_' = program,
                                                        position_' = positionAttribute,
                                                        uv_' = uvAttribute,
                                                        projectionMatrix_' = projectionMatrixUniform\<rparr>),
                                            gl4 @ release)
                                      else (Inr None, gl4 @ [GlDeleteProgram program] @ release))
                      else (Inr None, gl3 @ release)))"

text \<open>\<^verbatim>\<open>Shader::activate\<close>, \<^verbatim>\<open>Shader::deactivate\<close>, \<^verbatim>\<open>Shader::setProjectionMatrix\<close>.\<close>

definition activate :: "Shader \<Rightarrow> call list \<Rightarrow> call list" where
  "activate s gl = gl @ [GlUseProgram (program_' s)]"

definition deactivate :: "Shader \<Rightarrow> call list \<Rightarrow> call list" where
  "deactivate s gl = gl @ [GlUseProgram 0]"

definition setProjectionMatrix :: "Shader \<Rightarrow> matrix \<Rightarrow> call list \<Rightarrow> call list" where
  "setProjectionMatrix s projectionMatrix gl =
     gl @ [GlUniformMatrix4fv (projectionMatrix_' s) projectionMatrix]"

text \<open>
  \<^verbatim>\<open>Shader::drawModel\<close>. \<^verbatim>\<open>model.getTexture()\<close> dereferences the model's texture
  handle: on a null handle the draw stops with \<open>NullDereference\<close>.
\<close>

definition drawModel :: "Shader \<Rightarrow> Model \<Rightarrow> call list \<Rightarrow> error option \<times> call list" where
  "drawModel s model gl =
     (let gl1 = gl @ [GlVertexAttribPointer (position_' s) 3 (vertices_' model) PositionField,
                      GlEnableVertexAttribArray (position_' s)];
          draw = GlDrawElements (length (indices_' model)) (indices_' model)
      in if uv_' s \<noteq> - 1 then
           (let gl2 = gl1 @ [GlVertexAttribPointer (uv_' s) 2 (vertices_' model) UVField,
                             GlEnableVertexAttribArray (uv_' s),
                             GlActiveTexture]
            in case spTexture_' model of
                 None \<Rightarrow> (Some NullDereference, gl2)
               | Some texture \<Rightarrow>
                   (None, gl2 @ [GlBindTexture (getTextureID texture), draw,
                                 GlDisableVertexAttribArray (uv_' s),
                                 GlDisableVertexAttribArray (position_' s)]))
         else (None, gl1 @ [draw, GlDisableVertexAttribArray (position_' s)]))"

section \<open>Renderer.cpp\<close>

type_synonym EGLDisplay = nat
type_synonym EGLSurface = nat
type_synonym EGLContext = nat

definition EGL_NO_DISPLAY :: EGLDisplay where
  "EGL_NO_DISPLAY = 0"

definition EGL_NO_SURFACE :: EGLSurface where
  "EGL_NO_SURFACE = 0"

definition EGL_NO_CONTEXT :: EGLContext where
  "EGL_NO_CONTEXT = 0"

text \<open>
  The members of Renderer that the two source files use (Renderer.h is not among the
  sources). \<open>app_assetManager\<close> is the value of the source's test
  \<^verbatim>\<open>app_ && app_->activity && app_->activity->assetManager\<close>; \<open>calls\<close> is the list of
  external calls made so far. \<open>counter\<close> is a \<^verbatim>\<open>float\<close>: the source assigns it
  \<^verbatim>\<open>float\<close> literals and passes it as the \<^verbatim>\<open>float z\<close> of \<^verbatim>\<open>drawRobotInPosition\<close>.
  The width and height are \<^verbatim>\<open>EGLint\<close>; nothing is computed with them but a conversion
  to \<^verbatim>\<open>float\<close>.
\<close>

record Renderer =
  app_assetManager :: bool
  display_' :: EGLDisplay
  surface_' :: EGLSurface
  context_' :: EGLContext
  width_' :: EGLint
  height_' :: EGLint
  shaderNeedsNewProjectionMatrix_' :: bool
  shader_' :: "Shader option"
  shaderRed_' :: "Shader option"
  models_' :: "Model list"
  modelsRed_' :: "Model list"
  textureCache_' :: "string \<rightharpoonup> TextureAsset"
  counter :: float32
  calls :: "call list"

text \<open>
  What the world answers during a frame: the asset loader (its answer may depend on the
  calls made before), the surface's size, and whether presenting the frame succeeds.
\<close>

record env =
  loadAsset_ret :: "call list \<Rightarrow> string \<Rightarrow> TextureAsset option"
  eglQuerySurface_WIDTH :: EGLint
  eglQuerySurface_HEIGHT :: EGLint
  eglSwapBuffers_ret :: bool


definition kProjectionHalfHeight :: float32 where
  "kProjectionHalfHeight = flit 2 1"

definition kProjectionNearPlane :: float32 where
  "kProjectionNearPlane = flit (- 1) 1"

definition kProjectionFarPlane :: float32 where
  "kProjectionFarPlane = flit 1 1"

text \<open>The step of a sequence of operations that may stop on an error.\<close>

definition and_then ::
  "error option \<times> 's \<Rightarrow> ('s \<Rightarrow> error option \<times> 's) \<Rightarrow> error option \<times> 's" where
  "and_then m f = (case m of (None, s) \<Rightarrow> f s | (Some e, s) \<Rightarrow> (Some e, s))"

text \<open>\<^verbatim>\<open>Renderer::~Renderer\<close>.\<close>

definition Renderer_dtor :: "Renderer \<Rightarrow> Renderer" where
  "Renderer_dtor r =
     (if display_' r \<noteq> EGL_NO_DISPLAY then
        let r1 = r\<lparr>calls := calls r @ [EglMakeCurrent (display_' r) EGL_NO_SURFACE
                                         EGL_NO_SURFACE EGL_NO_CONTEXT]\<rparr>;
            r2 = (if context_' r1 \<noteq> EGL_NO_CONTEXT
                  then r1\<lparr>calls := calls r1 @ [EglDestroyContext (display_' r1) (context_' r1)],
                          context_' := EGL_NO_CONTEXT\<rparr>
                  else r1);
            r3 = (if surface_' r2 \<noteq> EGL_NO_SURFACE
                  then r2\<lparr>calls := calls r2 @ [EglDestroySurface (display_' r2) (surface_' r2)],
                          surface_' := EGL_NO_SURFACE\<rparr>
                  else r2)
        in r3\<lparr>calls := calls r3 @ [EglTerminate (display_' r3)],
               display_' := EGL_NO_DISPLAY\<rparr>
      else r)"

text \<open>\<^verbatim>\<open>Renderer::updateRenderArea\<close>; \<open>width\<close> and \<open>height\<close> are what \<^verbatim>\<open>eglQuerySurface\<close> answers.\<close>

definition updateRenderArea :: "EGLint \<Rightarrow> EGLint \<Rightarrow> Renderer \<Rightarrow> Renderer" where
  "updateRenderArea width height r =
     (if width \<noteq> width_' r \<or> height \<noteq> height_' r
      then r\<lparr>width_' := width,
             height_' := height,
             calls := calls r @ [GlViewport width height],
             shaderNeedsNewProjectionMatrix_' := True\<rparr>
      else r)"

text \<open>The draw loop \<^verbatim>\<open>for (const auto &model: models) shader->drawModel(model)\<close>.\<close>

fun drawModels :: "Shader \<Rightarrow> Model list \<Rightarrow> call list \<Rightarrow> error option \<times> call list" where
  "drawModels s [] gl = (None, gl)"
| "drawModels s (model # models) gl =
     (case drawModel s model gl of
        (Some e, gl1) \<Rightarrow> (Some e, gl1)
      | (None, gl1) \<Rightarrow> drawModels s models gl1)"

text \<open>
  \<^verbatim>\<open>Renderer::render\<close>, in the three blocks of the source.

  The block under \<^verbatim>\<open>if (shaderNeedsNewProjectionMatrix_)\<close>.
  \<^verbatim>\<open>Utility::buildOrthographicMatrix\<close> is not among the sources: the matrix it builds is
  kept symbolic, as its four arguments. Using a null \<^verbatim>\<open>shader_\<close> or \<^verbatim>\<open>shaderRed_\<close>
  stops the frame with \<open>NullDereference\<close>.
\<close>

definition render_projection :: "Renderer \<Rightarrow> error option \<times> Renderer" where
  "render_projection r1 =
     (if shaderNeedsNewProjectionMatrix_' r1 then
        (let projectionMatrix =
               OrthographicMatrix kProjectionHalfHeight
                 (fdiv (float_of_int (width_' r1)) (float_of_int (height_' r1)))
                 kProjectionNearPlane kProjectionFarPlane
         in case shader_' r1 of
              None \<Rightarrow> (Some NullDereference, r1)
            | Some sh \<Rightarrow>
                let gl1 = deactivate sh (setProjectionMatrix sh projectionMatrix
                            (activate sh (calls r1)))
                in (case shaderRed_' r1 of
                      None \<Rightarrow> (Some NullDereference, r1\<lparr>calls := gl1\<rparr>)
                    | Some shRed \<Rightarrow>
                        (None, r1\<lparr>calls := deactivate shRed
                                             (setProjectionMatrix shRed projectionMatrix
                                               (activate shRed gl1)),
                                   shaderNeedsNewProjectionMatrix_' := False\<rparr>)))
      else (None, r1))"

text \<open>
  The block \<^verbatim>\<open>if (!models.empty()) { shader->activate(); for (...) shader->drawModel(model);
  shader->deactivate(); }\<close>, which the source has once for \<^verbatim>\<open>modelsRed_\<close> under
  \<^verbatim>\<open>shaderRed_\<close> and then once for \<^verbatim>\<open>models_\<close> under \<^verbatim>\<open>shader_\<close>.
\<close>

definition render_models ::
  "Shader option \<Rightarrow> Model list \<Rightarrow> Renderer \<Rightarrow> error option \<times> Renderer" where
  "render_models shader models r =
     (if models \<noteq> [] then
        (case shader of
           None \<Rightarrow> (Some NullDereference, r)
         | Some sh \<Rightarrow>
             (case drawModels sh models (activate sh (calls r)) of
                (Some e, gl) \<Rightarrow> (Some e, r\<lparr>calls := gl\<rparr>)
              | (None, gl) \<Rightarrow> (None, r\<lparr>calls := deactivate sh gl\<rparr>)))
      else (None, r))"

text \<open>
  The whole frame; the assertion on the result of \<^verbatim>\<open>eglSwapBuffers\<close> stops it with
  \<open>AssertionFailed\<close>.
\<close>

definition render :: "env \<Rightarrow> Renderer \<Rightarrow> error option \<times> Renderer" where
  "render env r0 =
     and_then (None, updateRenderArea (eglQuerySurface_WIDTH env) (eglQuerySurface_HEIGHT env) r0)
     (\<lambda>r1.
     and_then (render_projection r1)
     (\<lambda>r2.
     and_then (None, r2\<lparr>calls := calls r2 @ [GlClear]\<rparr>)
     (\<lambda>r3.
     and_then (render_models (shaderRed_' r3) (modelsRed_' r3) r3)
     (\<lambda>r4.
     and_then (render_models (shader_' r4) (models_' r4) r4)
     (\<lambda>r5.
       let r6 = r5\<lparr>calls := calls r5 @ [EglSwapBuffers (display_' r5) (surface_' r5)]\<rparr>
       in if eglSwapBuffers_ret env then (None, r6) else (Some AssertionFailed, r6))))))"

text \<open>
  \<^verbatim>\<open>Renderer::getOrLoadTexture\<close>: the handle returned (\<open>None\<close> is the null handle) and the
  Renderer afterwards.
\<close>

definition getOrLoadTexture ::
  "env \<Rightarrow> Renderer \<Rightarrow> string \<Rightarrow> TextureAsset option \<times> Renderer" where
  "getOrLoadTexture env r assetPath =
     (case textureCache_' r assetPath of
        Some it \<Rightarrow> (Some it, r)
      | None \<Rightarrow>
          if \<not> app_assetManager r then (None, r)
          else
            let newTexture = loadAsset_ret env (calls r) assetPath;
                r1 = r\<lparr>calls := calls r @ [LoadAsset assetPath newTexture]\<rparr>
            in (case newTexture of
                  Some t \<Rightarrow>
                    (newTexture, r1\<lparr>textureCache_' := (textureCache_' r1)(assetPath \<mapsto> t)\<rparr>)
                | None \<Rightarrow> (newTexture, r1)))"

definition quad_indices :: "Index list" where
  "quad_indices = [0, 1, 2, 0, 2, 3]"

text \<open>\<^verbatim>\<open>Renderer::createModels\<close>.\<close>

definition createModels :: "env \<Rightarrow> Renderer \<Rightarrow> Renderer" where
  "createModels env r =
     (let vertices = [Vertex (Vector3 (flit 1 1) (flit 1 1) (counter r)) (Vector2 (flit 0 1) (flit 0 1)),
                      Vertex (Vector3 (flit (- 1) 1) (flit 1 1) (counter r)) (Vector2 (flit 1 1) (flit 0 1)),
                      Vertex (Vector3 (flit (- 1) 1) (flit (- 1) 1) (counter r)) (Vector2 (flit 1 1) (flit 1 1)),
                      Vertex (Vector3 (flit 1 1) (flit (- 1) 1) (counter r)) (Vector2 (flit 0 1) (flit 1 1))];
          indices = quad_indices;
          (spAndroidRobotTexture, r1) = getOrLoadTexture env r ''android_robot.png'';
          r2 = (if spAndroidRobotTexture \<noteq> None
                then r1\<lparr>models_' := models_' r1 @
                        [\<lparr>vertices_' = vertices, indices_' = indices,
                          spTexture_' = spAndroidRobotTexture\<rparr>]\<rparr>
                else r1)
      in r2\<lparr>models_' := models_' r2 @
              [\<lparr>vertices_' = vertices, indices_' = indices,
                spTexture_' = spAndroidRobotTexture\<rparr>]\<rparr>)"

text \<open>\<^verbatim>\<open>Renderer::createBackground\<close>.\<close>

definition createBackground :: "Renderer \<Rightarrow> Renderer" where
  "createBackground r =
     (let vertices = [Vertex (Vector3 (flit 5 4) (flit 2 1) (flit 0 1)) (Vector2 (flit 0 1) (flit 0 1)),
                      Vertex (Vector3 (flit (- 5) 4) (flit 2 1) (flit 0 1)) (Vector2 (flit 0 1) (flit 0 1)),
                      Vertex (Vector3 (flit (- 5) 4) (flit (- 2) 1) (flit 0 1)) (Vector2 (flit 0 1) (flit 0 1)),
                      Vertex (Vector3 (flit 5 4) (flit (- 2) 1) (flit 0 1)) (Vector2 (flit 0 1) (flit 0 1))];
          indices = quad_indices;
          noTexture = None
      in r\<lparr>modelsRed_' := modelsRed_' r @
             [\<lparr>vertices_' = vertices, indices_' = indices, spTexture_' = noTexture\<rparr>]\<rparr>)"

text \<open>\<^verbatim>\<open>Renderer::drawRobotInPosition\<close>.\<close>

definition drawRobotInPosition ::
  "env \<Rightarrow> float32 \<Rightarrow> float32 \<Rightarrow> float32 \<Rightarrow> Renderer \<Rightarrow> Renderer" where
  "drawRobotInPosition env x y z r =
     (let vertices = [Vertex (Vector3 (fadd x (flit 1 10)) (fadd y (flit 1 10)) z) (Vector2 (flit 0 1) (flit 0 1)),
                      Vertex (Vector3 (fsub x (flit 1 10)) (fadd y (flit 1 10)) z) (Vector2 (flit 1 1) (flit 0 1)),
                      Vertex (Vector3 (fsub x (flit 1 10)) (fsub y (flit 1 10)) z) (Vector2 (flit 1 1) (flit 1 1)),
                      Vertex (Vector3 (fadd x (flit 1 10)) (fsub y (flit 1 10)) z) (Vector2 (flit 0 1) (flit 1 1))];
          indices = quad_indices;
          (spAndroidRobotTexture, r1) = getOrLoadTexture env r ''android_robot.png''
      in if spAndroidRobotTexture \<noteq> None
         then r1\<lparr>models_' := models_' r1 @
                 [\<lparr>vertices_' = vertices, indices_' = indices,
                   spTexture_' = spAndroidRobotTexture\<rparr>]\<rparr>
         else r1)"

subsection \<open>Input\<close>

text \<open>
  The input buffer of the windowing collaborator (its declarations are not among the
  sources): a motion event has an action word, a pointer count and an array of pointers,
  each with an x and a y in surface pixels. The action constants are those of the
  Android NDK.
\<close>

record GameActivityPointerAxes =
  pointer_id :: int
  getX :: float32
  getY :: float32

record GameActivityMotionEvent =
  action :: "32 word"
  pointerCount :: nat
  pointers :: "GameActivityPointerAxes list"

record android_input_buffer =
  motionEvents :: "GameActivityMotionEvent list"
  keyEventsCount :: nat

definition AMOTION_EVENT_ACTION_MASK :: "32 word" where
  "AMOTION_EVENT_ACTION_MASK = 0xff"

definition AMOTION_EVENT_ACTION_POINTER_INDEX_MASK :: "32 word" where
  "AMOTION_EVENT_ACTION_POINTER_INDEX_MASK = 0xff00"

definition AMOTION_EVENT_ACTION_POINTER_INDEX_SHIFT :: nat where
  "AMOTION_EVENT_ACTION_POINTER_INDEX_SHIFT = 8"

definition AMOTION_EVENT_ACTION_DOWN :: "32 word" where
  "AMOTION_EVENT_ACTION_DOWN = 0"

definition AMOTION_EVENT_ACTION_UP :: "32 word" where
  "AMOTION_EVENT_ACTION_UP = 1"

definition AMOTION_EVENT_ACTION_MOVE :: "32 word" where
  "AMOTION_EVENT_ACTION_MOVE = 2"

definition AMOTION_EVENT_ACTION_CANCEL :: "32 word" where
  "AMOTION_EVENT_ACTION_CANCEL = 3"

definition AMOTION_EVENT_ACTION_POINTER_DOWN :: "32 word" where
  "AMOTION_EVENT_ACTION_POINTER_DOWN = 5"

definition AMOTION_EVENT_ACTION_POINTER_UP :: "32 word" where
  "AMOTION_EVENT_ACTION_POINTER_UP = 6"

text \<open>
  The body of the loop over the motion events of \<^verbatim>\<open>Renderer::handleInput\<close>. Reading
  \<^verbatim>\<open>pointers[pointerIndex]\<close> outside the array stops with \<open>OutOfBounds\<close>, and so does
  the loop of the MOVE case when the pointer count exceeds the array. The cases UP,
  POINTER_UP, CANCEL and MOVE and the default case only write diagnostics (the MOVE case
  also writes into the input buffer, which is not part of the Renderer).
\<close>

definition handleMotionEvent ::
  "env \<Rightarrow> GameActivityMotionEvent \<Rightarrow> Renderer \<Rightarrow> error option \<times> Renderer" where
  "handleMotionEvent env motionEvent r =
     (let pointerIndex =
            unat (drop_bit AMOTION_EVENT_ACTION_POINTER_INDEX_SHIFT
                    (action motionEvent AND AMOTION_EVENT_ACTION_POINTER_INDEX_MASK))
      in if length (pointers motionEvent) \<le> pointerIndex then (Some OutOfBounds, r)
         else
           let pointer = pointers motionEvent ! pointerIndex;
               x = getX pointer;
               y = getY pointer;
               a = action motionEvent AND AMOTION_EVENT_ACTION_MASK
           in if a = AMOTION_EVENT_ACTION_DOWN \<or> a = AMOTION_EVENT_ACTION_POINTER_DOWN then
                (let r1 = drawRobotInPosition env
                            (fsub (fdiv (fmul (flit 5 2) x) (float_of_int (width_' r))) (flit 5 4))
                            (fadd (fdiv (fmul (flit (- 4) 1) y) (float_of_int (height_' r))) (flit 2 1))
                            (counter r) r
                 in (None, r1\<lparr>counter := fadd (counter r1) (flit 1 100000)\<rparr>))
              else if a = AMOTION_EVENT_ACTION_MOVE
                      \<and> length (pointers motionEvent) < pointerCount motionEvent
              then (Some OutOfBounds, r)
              else (None, r))"

fun handleMotionEvents ::
  "env \<Rightarrow> GameActivityMotionEvent list \<Rightarrow> Renderer \<Rightarrow> error option \<times> Renderer" where
  "handleMotionEvents env [] r = (None, r)"
| "handleMotionEvents env (motionEvent # rest) r =
     and_then (handleMotionEvent env motionEvent r) (handleMotionEvents env rest)"

text \<open>
  \<^verbatim>\<open>Renderer::handleInput\<close>; \<open>inputBuffer\<close> is what \<^verbatim>\<open>android_app_swap_input_buffers\<close>
  returns (\<open>None\<close> is null). The loop over the key events only writes diagnostics.
\<close>

definition handleInput ::
  "env \<Rightarrow> android_input_buffer option \<Rightarrow> Renderer \<Rightarrow> error option \<times> Renderer" where
  "handleInput env inputBuffer r =
     (case inputBuffer of
        None \<Rightarrow> (None, r)
      | Some buffer \<Rightarrow>
          and_then (handleMotionEvents env (motionEvents buffer) r)
            (\<lambda>r1. (None, r1\<lparr>calls := calls r1 @ [ClearMotionEvents, ClearKeyEvents]\<rparr>)))"

text \<open>
  \<^verbatim>\<open>Renderer::initRenderer\<close>. The choice of the EGL configuration and the creation of the
  surface and the context are one call \<open>EglSetup\<close>, whose results are read from the
  environment; the fixed pipeline state (clear colour, blending, depth test) is one call
  \<open>GlSetupPipelineState\<close>. Each of the three assertions stops with \<open>AssertionFailed\<close>.
  The four shader sources are the source's raw strings, their line breaks written as
  spaces.
\<close>

definition vertex :: string where
  "vertex = ''#version 300 es in vec3 inPosition; in vec2 inUV; out vec2 fragUV; uniform mat4 uProjection; void main() { fragUV = inUV; gl_Position = uProjection * vec4(inPosition, 1.0); }''"

definition fragment :: string where
  "fragment = ''#version 300 es precision mediump float; in vec2 fragUV; uniform sampler2D uTexture; out vec4 outColor; void main() { outColor = texture(uTexture, fragUV); }''"

definition vertexRed :: string where
  "vertexRed = ''#version 300 es in vec3 inPosition; in vec2 inUV; out vec2 fragUV; uniform mat4 uProjection; void main() { fragUV = inUV; gl_Position = uProjection * vec4(inPosition, 1.0); }''"

definition fragmentSolidRed :: string where
  "fragmentSolidRed = ''#version 300 es precision mediump float; in vec2 fragUV; out vec4 outColor; void main() { outColor = vec4(1.0, 0.0, 0.0, 1.0); }''"


section \<open>Runs and observations\<close>

text \<open>A sequence of requests to the texture cache: the handles returned, in order.\<close>

fun getOrLoadTextures ::
  "env \<Rightarrow> string list \<Rightarrow> Renderer \<Rightarrow> TextureAsset option list \<times> Renderer" where
  "getOrLoadTextures env [] r = ([], r)"
| "getOrLoadTextures env (assetPath # rest) r =
     (let (t, r1) = getOrLoadTexture env r assetPath;
          (ts, r2) = getOrLoadTextures env rest r1
      in (t # ts, r2))"

text \<open>The calls made between two states of a run.\<close>

definition new_calls :: "Renderer \<Rightarrow> Renderer \<Rightarrow> call list" where
  "new_calls r r' = drop (length (calls r)) (calls r')"

fun is_load :: "string \<Rightarrow> call \<Rightarrow> bool" where
  "is_load k (LoadAsset k' t) = (k = k')"
| "is_load k c = False"

fun is_successful_load :: "string \<Rightarrow> call \<Rightarrow> bool" where
  "is_successful_load k (LoadAsset k' (Some t)) = (k = k')"
| "is_successful_load k c = False"

fun is_upload :: "call \<Rightarrow> bool" where
  "is_upload (GlUniformMatrix4fv l m) = True"
| "is_upload c = False"

fun is_draw :: "call \<Rightarrow> bool" where
  "is_draw (GlDrawElements n indices) = True"
| "is_draw c = False"

text \<open>
  What a frame submits for drawing: the binding of a model's vertex data to the position
  attribute and the draw of its indices; \<open>submission_of\<close> is the pair one model
  contributes under a program, \<open>draw_of\<close> its draw call alone.
\<close>

fun is_submission :: "call \<Rightarrow> bool" where
  "is_submission (GlVertexAttribPointer l n vs f) = (f = PositionField)"
| "is_submission (GlDrawElements n indices) = True"
| "is_submission c = False"

definition submission_of :: "Shader \<Rightarrow> Model \<Rightarrow> call list" where
  "submission_of s model =
     [GlVertexAttribPointer (position_' s) 3 (vertices_' model) PositionField,
      GlDrawElements (length (indices_' model)) (indices_' model)]"

definition draw_of :: "Model \<Rightarrow> call" where
  "draw_of model = GlDrawElements (length (indices_' model)) (indices_' model)"

fun is_delete_shader :: "call \<Rightarrow> bool" where
  "is_delete_shader (GlDeleteShader s) = True"
| "is_delete_shader c = False"

text \<open>The calls one \<^verbatim>\<open>drawModel\<close> makes, and those of a batch of models under one program.\<close>

definition draw_calls :: "Shader \<Rightarrow> Model \<Rightarrow> call list" where
  "draw_calls s model = snd (drawModel s model [])"

definition batch_calls :: "Shader \<Rightarrow> Model list \<Rightarrow> call list" where
  "batch_calls s models =
     [GlUseProgram (program_' s)] @ concat (map (draw_calls s) models) @ [GlUseProgram 0]"

text \<open>The calls that upload a projection matrix to both programs.\<close>

definition projection_calls :: "Shader \<Rightarrow> Shader \<Rightarrow> matrix \<Rightarrow> call list" where
  "projection_calls sh shRed m =
     [GlUseProgram (program_' sh), GlUniformMatrix4fv (projectionMatrix_' sh) m, GlUseProgram 0,
      GlUseProgram (program_' shRed), GlUniformMatrix4fv (projectionMatrix_' shRed) m,
      GlUseProgram 0]"










subsection \<open>Concrete inputs\<close>

definition example_texture_shader :: Shader where
  "example_texture_shader = \<lparr>program_' = 3, position_' = 0, uv_' = 1, projectionMatrix_' = 0\<rparr>"

definition example_red_shader :: Shader where
  "example_red_shader = \<lparr>program_' = 6, position_' = 0, uv_' = - 1, projectionMatrix_' = 0\<rparr>"

text \<open>A Renderer as \<^verbatim>\<open>initRenderer\<close> leaves it before any model is created.\<close>

definition example_renderer :: Renderer where
  "example_renderer =
     \<lparr>app_assetManager = True, display_' = 1, surface_' = 2, context_' = 3,
      width_' = - 1, height_' = - 1, shaderNeedsNewProjectionMatrix_' = False,
      shader_' = Some example_texture_shader, shaderRed_' = Some example_red_shader,
      models_' = [], modelsRed_' = [], textureCache_' = Map.empty,
      counter = flit 1 10000, calls = []\<rparr>"

text \<open>A world whose loader succeeds (with texture 7), and one whose loader fails.\<close>

definition example_env :: env where
  "example_env =
     \<lparr>loadAsset_ret = (\<lambda>history assetPath. Some (TextureAsset 7)),
      eglQuerySurface_WIDTH = 1000, eglQuerySurface_HEIGHT = 1600,
      eglSwapBuffers_ret = True\<rparr>"

definition failing_loader_env :: env where
  "failing_loader_env =
     \<lparr>loadAsset_ret = (\<lambda>history assetPath. None),
      eglQuerySurface_WIDTH = 1000, eglQuerySurface_HEIGHT = 1600,
      eglSwapBuffers_ret = True\<rparr>"


text \<open>
  A driver that compiles and links everything and resolves every name to location 0,
  and two drivers in which the linked program lacks the position attribute or the
  projection uniform.
\<close>

definition example_gl_env :: gl_env where
  "example_gl_env =
     \<lparr>assertGlError_holds = (\<lambda>t. True),
      glCreateShader_ret = (\<lambda>t. case t of GL_VERTEX_SHADER \<Rightarrow> 1 | GL_FRAGMENT_SHADER \<Rightarrow> 2),
      compile_status = (\<lambda>s. True),
      glCreateProgram_ret = 3,
      link_status = (\<lambda>p. True),
      glGetAttribLocation_ret = (\<lambda>p name. 0),
      glGetUniformLocation_ret = (\<lambda>p name. 0)\<rparr>"

definition no_position_gl_env :: gl_env where
  "no_position_gl_env = example_gl_env\<lparr>glGetAttribLocation_ret := (\<lambda>p name. - 1)\<rparr>"

definition no_projection_gl_env :: gl_env where
  "no_projection_gl_env = example_gl_env\<lparr>glGetUniformLocation_ret := (\<lambda>p name. - 1)\<rparr>"



section \<open>Properties\<close>

subsection \<open>The frame: draw order and projection upload\<close>

lemma drawModel_append:
  "drawModel s m gl = (fst (drawModel s m []), gl @ draw_calls s m)"
  by (simp add: drawModel_def draw_calls_def Let_def split: option.splits)

lemma draw_calls_no_upload: "filter is_upload (draw_calls s m) = []"
  by (simp add: drawModel_def draw_calls_def Let_def split: option.splits)

lemma drawModels_append:
  "\<exists>new. snd (drawModels s ms gl) = gl @ new \<and> filter is_upload new = []
     \<and> (fst (drawModels s ms gl) = None \<longrightarrow> new = concat (map (draw_calls s) ms))"
proof (induction ms arbitrary: gl)
  case Nil
  then show ?case by simp
next
  case (Cons m ms)
  obtain new where new: "snd (drawModels s ms (gl @ draw_calls s m)) = (gl @ draw_calls s m) @ new"
     "filter is_upload new = []"
     "fst (drawModels s ms (gl @ draw_calls s m)) = None \<longrightarrow> new = concat (map (draw_calls s) ms)"
    using Cons.IH by blast
  show ?case
  proof (cases "fst (drawModel s m [])")
    case None
    then have "drawModels s (m # ms) gl = drawModels s ms (gl @ draw_calls s m)"
      using drawModel_append [of s m gl] by simp
    then show ?thesis using new by (simp add: draw_calls_no_upload)
  next
    case (Some e)
    then have "drawModels s (m # ms) gl = (Some e, gl @ draw_calls s m)"
      using drawModel_append [of s m gl] by simp
    then show ?thesis by (simp add: draw_calls_no_upload)
  qed
qed

lemma drawModel_error:
  "fst (drawModel s m gl) = None \<or> fst (drawModel s m gl) = Some NullDereference"
  by (simp add: drawModel_def Let_def split: option.splits)

lemma drawModels_error:
  "fst (drawModels s ms gl) = None \<or> fst (drawModels s ms gl) = Some NullDereference"
proof (induction ms arbitrary: gl)
  case Nil
  then show ?case by simp
next
  case (Cons m ms)
  show ?case
    using drawModel_error [of s m gl] Cons.IH [of "snd (drawModel s m gl)"]
    by (auto simp: case_prod_beta split: option.splits)
qed


lemma render_models_facts:
  "\<exists>new. snd (render_models p ms r) = r\<lparr>calls := calls r @ new\<rparr>
      \<and> filter is_upload new = []
      \<and> (ms = [] \<longrightarrow> new = [] \<and> fst (render_models p ms r) = None)
      \<and> (ms \<noteq> [] \<and> fst (render_models p ms r) = None \<longrightarrow>
            (\<exists>sh. p = Some sh \<and> new = batch_calls sh ms))
      \<and> (fst (render_models p ms r) = None \<or> fst (render_models p ms r) = Some NullDereference)"
proof (cases "ms = []")
  case True
  then show ?thesis by (intro exI [of _ "[]"]) (simp add: render_models_def)
next
  case False
  show ?thesis
  proof (cases p)
    case None
    then show ?thesis using False by (intro exI [of _ "[]"]) (simp add: render_models_def)
  next
    case (Some sh)
    obtain new where new: "snd (drawModels sh ms (calls r @ [GlUseProgram (program_' sh)]))
          = (calls r @ [GlUseProgram (program_' sh)]) @ new"
      "filter is_upload new = []"
      "fst (drawModels sh ms (calls r @ [GlUseProgram (program_' sh)])) = None
         \<longrightarrow> new = concat (map (draw_calls sh) ms)"
      using drawModels_append by blast
    show ?thesis
    proof (cases "fst (drawModels sh ms (calls r @ [GlUseProgram (program_' sh)]))")
      case None
      then show ?thesis using new False Some
        by (intro exI [of _ "[GlUseProgram (program_' sh)] @ new @ [GlUseProgram 0]"])
           (simp add: render_models_def activate_def deactivate_def batch_calls_def
              case_prod_beta)
    next
      case (Some e)
      then show ?thesis
        using new False \<open>p = Some sh\<close>
          drawModels_error [of sh ms "calls r @ [GlUseProgram (program_' sh)]"]
        by (intro exI [of _ "[GlUseProgram (program_' sh)] @ new"])
           (simp add: render_models_def activate_def deactivate_def batch_calls_def
              case_prod_beta)
    qed
  qed
qed


lemma filter_upload_projection_calls:
  "filter is_upload (projection_calls sh shRed m) =
     [GlUniformMatrix4fv (projectionMatrix_' sh) m, GlUniformMatrix4fv (projectionMatrix_' shRed) m]"
  by (simp add: projection_calls_def)

lemma updateRenderArea_calls:
  "\<exists>new. updateRenderArea w h r =
      r\<lparr>width_' := w, height_' := h, calls := calls r @ new,
        shaderNeedsNewProjectionMatrix_' :=
          (shaderNeedsNewProjectionMatrix_' r \<or> w \<noteq> width_' r \<or> h \<noteq> height_' r)\<rparr>
      \<and> filter is_upload new = [] \<and> filter is_draw new = []"
proof (cases "w \<noteq> width_' r \<or> h \<noteq> height_' r")
  case True
  then show ?thesis
    by (intro exI [of _ "[GlViewport w h]"]) (auto simp add: updateRenderArea_def)
next
  case False
  then show ?thesis
    by (intro exI [of _ "[]"]) (simp add: updateRenderArea_def)
qed

text \<open>The frame after the projection block: from the clear to the swap.\<close>

lemma render_tail:
  fixes env r2
  defines "tail \<equiv> (\<lambda>r2. and_then (None, r2\<lparr>calls := calls r2 @ [GlClear]\<rparr>)
     (\<lambda>r3.
     and_then (render_models (shaderRed_' r3) (modelsRed_' r3) r3)
     (\<lambda>r4.
     and_then (render_models (shader_' r4) (models_' r4) r4)
     (\<lambda>r5.
       let r6 = r5\<lparr>calls := calls r5 @ [EglSwapBuffers (display_' r5) (surface_' r5)]\<rparr>
       in if eglSwapBuffers_ret env then (None, r6) else (Some AssertionFailed, r6)))))"
  shows "\<exists>rest. snd (tail r2) = r2\<lparr>calls := calls r2 @ [GlClear] @ rest\<rparr>
           \<and> filter is_upload rest = []
           \<and> (fst (tail r2) \<noteq> Some NullDereference \<and> modelsRed_' r2 \<noteq> [] \<and> models_' r2 \<noteq> [] \<longrightarrow>
                (\<exists>shRed sh. shaderRed_' r2 = Some shRed \<and> shader_' r2 = Some sh
                   \<and> rest = batch_calls shRed (modelsRed_' r2) @ batch_calls sh (models_' r2)
                        @ [EglSwapBuffers (display_' r2) (surface_' r2)]))"
proof -
  define r3 where "r3 = r2\<lparr>calls := calls r2 @ [GlClear]\<rparr>"
  obtain new4 where new4:
    "snd (render_models (shaderRed_' r3) (modelsRed_' r3) r3) = r3\<lparr>calls := calls r3 @ new4\<rparr>"
    "filter is_upload new4 = []"
    "modelsRed_' r3 \<noteq> [] \<and> fst (render_models (shaderRed_' r3) (modelsRed_' r3) r3) = None \<longrightarrow>
            (\<exists>sh. shaderRed_' r3 = Some sh \<and> new4 = batch_calls sh (modelsRed_' r3))"
    "fst (render_models (shaderRed_' r3) (modelsRed_' r3) r3) = None
       \<or> fst (render_models (shaderRed_' r3) (modelsRed_' r3) r3) = Some NullDereference"
    using render_models_facts [of "shaderRed_' r3" "modelsRed_' r3" r3] by blast
  define r4 where "r4 = r3\<lparr>calls := calls r3 @ new4\<rparr>"
  obtain new5 where new5:
    "snd (render_models (shader_' r4) (models_' r4) r4) = r4\<lparr>calls := calls r4 @ new5\<rparr>"
    "filter is_upload new5 = []"
    "models_' r4 \<noteq> [] \<and> fst (render_models (shader_' r4) (models_' r4) r4) = None \<longrightarrow>
            (\<exists>sh. shader_' r4 = Some sh \<and> new5 = batch_calls sh (models_' r4))"
    "fst (render_models (shader_' r4) (models_' r4) r4) = None
       \<or> fst (render_models (shader_' r4) (models_' r4) r4) = Some NullDereference"
    using render_models_facts [of "shader_' r4" "models_' r4" r4] by blast
  define r5 where "r5 = r4\<lparr>calls := calls r4 @ new5\<rparr>"
  show ?thesis
  proof (cases "fst (render_models (shaderRed_' r3) (modelsRed_' r3) r3)")
    case (Some e)
    then have "tail r2 = (Some NullDereference, r4)"
      using new4 by (simp add: tail_def and_then_def r3_def r4_def case_prod_beta)
    then show ?thesis
      using new4(2) by (intro exI [of _ new4]) (simp add: r4_def r3_def)
  next
    case None
    note red = this
    show ?thesis
    proof (cases "fst (render_models (shader_' r4) (models_' r4) r4)")
      case (Some e)
      then have "tail r2 = (Some NullDereference, r5)"
        using new4 new5 red
        by (simp add: tail_def and_then_def r3_def r4_def r5_def case_prod_beta)
      then show ?thesis
        using new4(2) new5(2) by (intro exI [of _ "new4 @ new5"]) (simp add: r5_def r4_def r3_def)
    next
      case None
      then have t: "tail r2 = (if eglSwapBuffers_ret env then None else Some AssertionFailed,
           r5\<lparr>calls := calls r5 @ [EglSwapBuffers (display_' r5) (surface_' r5)]\<rparr>)"
        using new4 new5 red
        by (simp add: tail_def and_then_def r3_def r4_def r5_def case_prod_beta Let_def)
      show ?thesis
        using new4(2,3) new5(2,3) red None unfolding t
        by (intro exI [of _ "new4 @ new5 @ [EglSwapBuffers (display_' r2) (surface_' r2)]"])
           (auto simp add: r5_def r4_def r3_def)
    qed
  qed
qed


lemma render_projection_facts:
  "\<exists>pc. snd (render_projection r1) =
          r1\<lparr>calls := calls r1 @ pc,
             shaderNeedsNewProjectionMatrix_' :=
               (shaderNeedsNewProjectionMatrix_' r1 \<and> fst (render_projection r1) \<noteq> None)\<rparr>
     \<and> filter is_draw pc = []
     \<and> (fst (render_projection r1) = None \<or> fst (render_projection r1) = Some NullDereference)
     \<and> (\<not> shaderNeedsNewProjectionMatrix_' r1 \<longrightarrow> pc = [] \<and> fst (render_projection r1) = None)
     \<and> (shaderNeedsNewProjectionMatrix_' r1 \<longrightarrow>
          (\<forall>sh shRed. shader_' r1 = Some sh \<and> shaderRed_' r1 = Some shRed \<longrightarrow>
             fst (render_projection r1) = None \<and>
             pc = projection_calls sh shRed
                    (OrthographicMatrix kProjectionHalfHeight
                       (fdiv (float_of_int (width_' r1)) (float_of_int (height_' r1)))
                       kProjectionNearPlane kProjectionFarPlane)))"
proof (cases "shaderNeedsNewProjectionMatrix_' r1")
  case False
  then show ?thesis by (intro exI [of _ "[]"]) (simp add: render_projection_def Let_def)
next
  case True
  show ?thesis
  proof (cases "shader_' r1")
    case None
    then show ?thesis using True
      by (intro exI [of _ "[]"]) (simp add: render_projection_def Let_def)
  next
    case (Some sh)
    note sh = this
    show ?thesis
    proof (cases "shaderRed_' r1")
      case None
      then show ?thesis using True sh
        by (intro exI [of _ "[GlUseProgram (program_' sh),
               GlUniformMatrix4fv (projectionMatrix_' sh)
                 (OrthographicMatrix kProjectionHalfHeight
                       (fdiv (float_of_int (width_' r1)) (float_of_int (height_' r1)))
                       kProjectionNearPlane kProjectionFarPlane), GlUseProgram 0]"])
           (simp add: render_projection_def activate_def deactivate_def setProjectionMatrix_def Let_def)
    next
      case (Some shRed)
      then show ?thesis using True sh
        by (intro exI [of _ "projection_calls sh shRed
                    (OrthographicMatrix kProjectionHalfHeight
                       (fdiv (float_of_int (width_' r1)) (float_of_int (height_' r1)))
                       kProjectionNearPlane kProjectionFarPlane)"])
           (simp add: render_projection_def activate_def deactivate_def setProjectionMatrix_def
              projection_calls_def Let_def)
    qed
  qed
qed

text \<open>The submissions of one \<^verbatim>\<open>drawModel\<close> that returns, and of a batch.\<close>

lemma draw_calls_submission:
  "fst (drawModel s m []) = None \<Longrightarrow>
     filter is_submission (draw_calls s m) = submission_of s m
     \<and> filter is_draw (draw_calls s m) = [draw_of m]"
  by (simp add: drawModel_def draw_calls_def submission_of_def draw_of_def Let_def
           split: option.splits if_splits)

lemma drawModels_ok:
  "fst (drawModels s ms gl) = None \<Longrightarrow> m \<in> set ms \<Longrightarrow> fst (drawModel s m []) = None"
proof (induction ms arbitrary: gl)
  case Nil
  then show ?case by simp
next
  case (Cons a ms)
  show ?case
  proof (cases "fst (drawModel s a [])")
    case None
    then have "drawModels s (a # ms) gl = drawModels s ms (gl @ draw_calls s a)"
      using drawModel_append [of s a gl] by simp
    then show ?thesis using Cons None by auto
  next
    case (Some e)
    then have "drawModels s (a # ms) gl = (Some e, gl @ draw_calls s a)"
      using drawModel_append [of s a gl] by simp
    then show ?thesis using Cons.prems by simp
  qed
qed

lemma render_models_ok:
  "fst (render_models (Some sh) ms r) = None \<Longrightarrow> m \<in> set ms \<Longrightarrow> fst (drawModel sh m []) = None"
proof -
  assume a: "fst (render_models (Some sh) ms r) = None" and m: "m \<in> set ms"
  then have "ms \<noteq> []" by auto
  then have "fst (drawModels sh ms (activate sh (calls r))) = None"
    using a by (simp add: render_models_def case_prod_beta split: option.splits)
  then show ?thesis using m by (rule drawModels_ok)
qed

lemma batch_calls_submissions:
  assumes "\<forall>m\<in>set ms. fst (drawModel s m []) = None"
  shows "filter is_submission (batch_calls s ms) = concat (map (submission_of s) ms)"
    and "filter is_draw (batch_calls s ms) = map draw_of ms"
proof -
  have "filter is_submission (concat (map (draw_calls s) ms)) = concat (map (submission_of s) ms)
        \<and> filter is_draw (concat (map (draw_calls s) ms)) = map draw_of ms"
    using assms by (induction ms) (simp_all add: draw_calls_submission)
  then show "filter is_submission (batch_calls s ms) = concat (map (submission_of s) ms)"
    and "filter is_draw (batch_calls s ms) = map draw_of ms"
    by (simp_all add: batch_calls_def)
qed

text \<open>A frame that ends without a null dereference drew every model of both lists.\<close>

lemma render_tail_ok:
  fixes env r2
  defines "tail \<equiv> (\<lambda>r2. and_then (None, r2\<lparr>calls := calls r2 @ [GlClear]\<rparr>)
     (\<lambda>r3.
     and_then (render_models (shaderRed_' r3) (modelsRed_' r3) r3)
     (\<lambda>r4.
     and_then (render_models (shader_' r4) (models_' r4) r4)
     (\<lambda>r5.
       let r6 = r5\<lparr>calls := calls r5 @ [EglSwapBuffers (display_' r5) (surface_' r5)]\<rparr>
       in if eglSwapBuffers_ret env then (None, r6) else (Some AssertionFailed, r6)))))"
  assumes nf: "fst (tail r2) \<noteq> Some NullDereference"
    and shs: "shaderRed_' r2 = Some shRed" "shader_' r2 = Some sh"
  shows "\<forall>m\<in>set (modelsRed_' r2). fst (drawModel shRed m []) = None"
    and "\<forall>m\<in>set (models_' r2). fst (drawModel sh m []) = None"
proof -
  define r3 where "r3 = r2\<lparr>calls := calls r2 @ [GlClear]\<rparr>"
  obtain new4 where new4:
    "snd (render_models (shaderRed_' r3) (modelsRed_' r3) r3) = r3\<lparr>calls := calls r3 @ new4\<rparr>"
    "fst (render_models (shaderRed_' r3) (modelsRed_' r3) r3) = None
       \<or> fst (render_models (shaderRed_' r3) (modelsRed_' r3) r3) = Some NullDereference"
    using render_models_facts [of "shaderRed_' r3" "modelsRed_' r3" r3] by blast
  define r4 where "r4 = r3\<lparr>calls := calls r3 @ new4\<rparr>"
  have red: "fst (render_models (shaderRed_' r3) (modelsRed_' r3) r3) = None"
  proof (rule ccontr)
    assume "fst (render_models (shaderRed_' r3) (modelsRed_' r3) r3) \<noteq> None"
    then have "fst (render_models (shaderRed_' r3) (modelsRed_' r3) r3) = Some NullDereference"
      using new4(2) by auto
    then have "fst (tail r2) = Some NullDereference"
      by (simp add: tail_def and_then_def r3_def case_prod_beta)
    then show False using nf by simp
  qed
  have tex_err: "fst (render_models (shader_' r4) (models_' r4) r4) = None
       \<or> fst (render_models (shader_' r4) (models_' r4) r4) = Some NullDereference"
    using render_models_facts [of "shader_' r4" "models_' r4" r4] by blast
  have tex: "fst (render_models (shader_' r4) (models_' r4) r4) = None"
  proof (rule ccontr)
    assume "fst (render_models (shader_' r4) (models_' r4) r4) \<noteq> None"
    then have "fst (render_models (shader_' r4) (models_' r4) r4) = Some NullDereference"
      using tex_err by auto
    then have "fst (tail r2) = Some NullDereference"
      using red new4(1)
      by (simp add: tail_def and_then_def r3_def r4_def case_prod_beta)
    then show False using nf by simp
  qed
  have "fst (render_models (Some shRed) (modelsRed_' r2) r3) = None"
    using red shs by (simp add: r3_def)
  then show "\<forall>m\<in>set (modelsRed_' r2). fst (drawModel shRed m []) = None"
    using render_models_ok by blast
  have "fst (render_models (Some sh) (models_' r2) r4) = None"
    using tex shs by (simp add: r4_def r3_def)
  then show "\<forall>m\<in>set (models_' r2). fst (drawModel sh m []) = None"
    using render_models_ok by blast
qed

text \<open>
  Claim C6. In a frame rendered (without a null dereference) while both model lists are
  non-empty, the calls of the frame are: a prefix that draws nothing, the clear, the whole
  batch of the solid-colour list under the solid-colour program, then the whole batch of
  the textured list under the texture program, then the swap. Each batch submits, for
  every model of its list and in list order, the model's vertices bound to the position
  attribute of the batch's program followed by the draw of the model's indices; so the
  draw calls of the frame are exactly those of the solid-colour models followed by those
  of the textured models, each list in its order.
\<close>

theorem render_draw_order:
  assumes "modelsRed_' r \<noteq> []" and "models_' r \<noteq> []"
    and "fst (render env r) \<noteq> Some NullDereference"
  shows "\<exists>shRed sh pre.
           shaderRed_' r = Some shRed \<and> shader_' r = Some sh \<and>
           new_calls r (snd (render env r)) =
             pre @ [GlClear] @ batch_calls shRed (modelsRed_' r) @ batch_calls sh (models_' r)
               @ [EglSwapBuffers (display_' r) (surface_' r)] \<and>
           filter is_draw pre = [] \<and>
           filter is_submission (batch_calls shRed (modelsRed_' r)) =
             concat (map (submission_of shRed) (modelsRed_' r)) \<and>
           filter is_submission (batch_calls sh (models_' r)) =
             concat (map (submission_of sh) (models_' r)) \<and>
           filter is_draw (new_calls r (snd (render env r))) =
             map draw_of (modelsRed_' r @ models_' r)"
proof -
  define r1 where "r1 = updateRenderArea (eglQuerySurface_WIDTH env) (eglQuerySurface_HEIGHT env) r"
  obtain new1 where new1:
    "r1 = r\<lparr>width_' := eglQuerySurface_WIDTH env, height_' := eglQuerySurface_HEIGHT env,
             calls := calls r @ new1,
             shaderNeedsNewProjectionMatrix_' :=
               (shaderNeedsNewProjectionMatrix_' r \<or> eglQuerySurface_WIDTH env \<noteq> width_' r
                  \<or> eglQuerySurface_HEIGHT env \<noteq> height_' r)\<rparr>"
    "filter is_draw new1 = []"
    unfolding r1_def using updateRenderArea_calls by blast
  obtain pc where pc:
    "snd (render_projection r1) =
          r1\<lparr>calls := calls r1 @ pc,
             shaderNeedsNewProjectionMatrix_' :=
               (shaderNeedsNewProjectionMatrix_' r1 \<and> fst (render_projection r1) \<noteq> None)\<rparr>"
    "filter is_draw pc = []"
    "fst (render_projection r1) = None \<or> fst (render_projection r1) = Some NullDereference"
    using render_projection_facts [of r1] by blast
  define r2 where "r2 = snd (render_projection r1)"
  have ok: "fst (render_projection r1) = None"
  proof (rule ccontr)
    assume "fst (render_projection r1) \<noteq> None"
    then have "fst (render_projection r1) = Some NullDereference" using pc(3) by auto
    then have "fst (render env r) = Some NullDereference"
      by (simp add: render_def and_then_def r1_def case_prod_beta)
    then show False using assms(3) by simp
  qed
  then have eq: "render env r =
     and_then (None, r2\<lparr>calls := calls r2 @ [GlClear]\<rparr>)
     (\<lambda>r3.
     and_then (render_models (shaderRed_' r3) (modelsRed_' r3) r3)
     (\<lambda>r4.
     and_then (render_models (shader_' r4) (models_' r4) r4)
     (\<lambda>r5.
       let r6 = r5\<lparr>calls := calls r5 @ [EglSwapBuffers (display_' r5) (surface_' r5)]\<rparr>
       in if eglSwapBuffers_ret env then (None, r6) else (Some AssertionFailed, r6))))"
    by (simp add: render_def and_then_def r1_def r2_def case_prod_beta)
  have fields: "modelsRed_' r2 = modelsRed_' r" "models_' r2 = models_' r"
    "shaderRed_' r2 = shaderRed_' r" "shader_' r2 = shader_' r"
    "display_' r2 = display_' r" "surface_' r2 = surface_' r"
    "calls r2 = calls r @ new1 @ pc"
    unfolding r2_def pc(1) by (subst new1(1), simp)+
  obtain rest where rest:
    "snd (render env r) = r2\<lparr>calls := calls r2 @ [GlClear] @ rest\<rparr>"
    "fst (render env r) \<noteq> Some NullDereference \<and> modelsRed_' r2 \<noteq> [] \<and> models_' r2 \<noteq> [] \<longrightarrow>
                (\<exists>shRed sh. shaderRed_' r2 = Some shRed \<and> shader_' r2 = Some sh
                   \<and> rest = batch_calls shRed (modelsRed_' r2) @ batch_calls sh (models_' r2)
                        @ [EglSwapBuffers (display_' r2) (surface_' r2)])"
    unfolding eq using render_tail [where env = env and ?r2.0 = r2] by blast
  from rest(2) assms fields obtain shRed sh where sh:
    "shaderRed_' r = Some shRed" "shader_' r = Some sh"
    "rest = batch_calls shRed (modelsRed_' r) @ batch_calls sh (models_' r)
                        @ [EglSwapBuffers (display_' r) (surface_' r)]"
    by auto
  have nf: "fst (and_then (None, r2\<lparr>calls := calls r2 @ [GlClear]\<rparr>)
     (\<lambda>r3.
     and_then (render_models (shaderRed_' r3) (modelsRed_' r3) r3)
     (\<lambda>r4.
     and_then (render_models (shader_' r4) (models_' r4) r4)
     (\<lambda>r5.
       let r6 = r5\<lparr>calls := calls r5 @ [EglSwapBuffers (display_' r5) (surface_' r5)]\<rparr>
       in if eglSwapBuffers_ret env then (None, r6) else (Some AssertionFailed, r6)))))
     \<noteq> Some NullDereference"
    using assms(3) unfolding eq .
  have ok_red: "\<forall>m\<in>set (modelsRed_' r). fst (drawModel shRed m []) = None"
    using render_tail_ok(1) [where env = env and ?r2.0 = r2, OF nf] sh(1,2) fields by simp
  have ok_tex: "\<forall>m\<in>set (models_' r). fst (drawModel sh m []) = None"
    using render_tail_ok(2) [where env = env and ?r2.0 = r2, OF nf] sh(1,2) fields by simp
  note sub_red = batch_calls_submissions [OF ok_red]
  note sub_tex = batch_calls_submissions [OF ok_tex]
  have new: "new_calls r (snd (render env r)) = (new1 @ pc) @ [GlClear] @ rest"
    by (simp add: new_calls_def rest(1) fields)
  have draws: "filter is_draw (new_calls r (snd (render env r))) =
             map draw_of (modelsRed_' r @ models_' r)"
    unfolding new sh(3) using new1(2) pc(2) sub_red(2) sub_tex(2) by simp
  have calls_eq: "new_calls r (snd (render env r)) =
      (new1 @ pc) @ [GlClear] @ batch_calls shRed (modelsRed_' r) @ batch_calls sh (models_' r)
        @ [EglSwapBuffers (display_' r) (surface_' r)]"
    unfolding new sh(3) by simp
  have pre: "filter is_draw (new1 @ pc) = []" using new1(2) pc(2) by simp
  show ?thesis
    apply (rule exI [of _ shRed])
    apply (rule exI [of _ sh])
    apply (rule exI [of _ "new1 @ pc"])
    using sh(1) sh(2) calls_eq pre sub_red(1) sub_tex(1) draws
    apply (intro conjI)
    apply assumption+
    done
qed

text \<open>
  Claim C5. A second \<^verbatim>\<open>updateRenderArea\<close> with the same surface size changes nothing (no
  viewport call, the flag is not set again), and a call whose size equals the cached one
  changes nothing; \<^verbatim>\<open>render\<close> uploads no projection matrix when the flag is not set
  after its size check, and when it is set the frame starts with the upload of one matrix
  to both programs, each activated before and deactivated after, and leaves the flag
  cleared.
\<close>

theorem resize_idempotent:
  "updateRenderArea w h (updateRenderArea w h r) = updateRenderArea w h r
   \<and> (width_' r = w \<and> height_' r = h \<longrightarrow> updateRenderArea w h r = r)
   \<and> (\<not> shaderNeedsNewProjectionMatrix_'
           (updateRenderArea (eglQuerySurface_WIDTH env) (eglQuerySurface_HEIGHT env) r) \<longrightarrow>
        filter is_upload (new_calls r (snd (render env r))) = [])
   \<and> (shaderNeedsNewProjectionMatrix_'
           (updateRenderArea (eglQuerySurface_WIDTH env) (eglQuerySurface_HEIGHT env) r)
        \<and> shader_' r = Some sh \<and> shaderRed_' r = Some shRed \<longrightarrow>
        (\<exists>rest.
           new_calls (updateRenderArea (eglQuerySurface_WIDTH env) (eglQuerySurface_HEIGHT env) r)
             (snd (render env r)) =
             projection_calls sh shRed
               (OrthographicMatrix kProjectionHalfHeight
                  (fdiv (float_of_int (eglQuerySurface_WIDTH env))
                     (float_of_int (eglQuerySurface_HEIGHT env)))
                  kProjectionNearPlane kProjectionFarPlane) @ [GlClear] @ rest
           \<and> filter is_upload rest = [])
        \<and> \<not> shaderNeedsNewProjectionMatrix_' (snd (render env r)))"
proof -
  define r1 where "r1 = updateRenderArea (eglQuerySurface_WIDTH env) (eglQuerySurface_HEIGHT env) r"
  obtain new1 where new1:
    "r1 = r\<lparr>width_' := eglQuerySurface_WIDTH env, height_' := eglQuerySurface_HEIGHT env,
             calls := calls r @ new1,
             shaderNeedsNewProjectionMatrix_' :=
               (shaderNeedsNewProjectionMatrix_' r \<or> eglQuerySurface_WIDTH env \<noteq> width_' r
                  \<or> eglQuerySurface_HEIGHT env \<noteq> height_' r)\<rparr>"
    "filter is_upload new1 = []"
    unfolding r1_def using updateRenderArea_calls by blast
  have r1_fields: "calls r1 = calls r @ new1" "shader_' r1 = shader_' r"
    "shaderRed_' r1 = shaderRed_' r" "width_' r1 = eglQuerySurface_WIDTH env"
    "height_' r1 = eglQuerySurface_HEIGHT env"
    by (subst new1(1), simp)+
  define tail where "tail = (\<lambda>r2. and_then (None, r2\<lparr>calls := calls r2 @ [GlClear]\<rparr>)
     (\<lambda>r3.
     and_then (render_models (shaderRed_' r3) (modelsRed_' r3) r3)
     (\<lambda>r4.
     and_then (render_models (shader_' r4) (models_' r4) r4)
     (\<lambda>r5.
       let r6 = r5\<lparr>calls := calls r5 @ [EglSwapBuffers (display_' r5) (surface_' r5)]\<rparr>
       in if eglSwapBuffers_ret env then (None, r6) else (Some AssertionFailed, r6)))))"
  have eq: "render env r = and_then (render_projection r1) tail"
    by (simp add: render_def and_then_def r1_def tail_def)
  have tail: "\<exists>rest. snd (tail s) = s\<lparr>calls := calls s @ [GlClear] @ rest\<rparr>
           \<and> filter is_upload rest = []" for s
    unfolding tail_def using render_tail [where env = env and ?r2.0 = s] by blast
  have a: "updateRenderArea w h (updateRenderArea w h r) = updateRenderArea w h r"
    by (simp add: updateRenderArea_def)
  have b: "width_' r = w \<and> height_' r = h \<longrightarrow> updateRenderArea w h r = r"
    by (simp add: updateRenderArea_def)
  have c: "filter is_upload (new_calls r (snd (render env r))) = []"
    if "\<not> shaderNeedsNewProjectionMatrix_' r1"
  proof -
    have p: "render_projection r1 = (None, r1)"
      using that by (simp add: render_projection_def)
    obtain rest where rest:
      "snd (render env r) = r1\<lparr>calls := calls r1 @ [GlClear] @ rest\<rparr>"
      "filter is_upload rest = []"
      using tail [of r1] by (auto simp add: eq p and_then_def)
    show ?thesis
      by (simp add: new_calls_def rest r1_fields new1(2))
  qed
  have d: "(\<exists>rest. new_calls r1 (snd (render env r)) =
             projection_calls sh shRed
               (OrthographicMatrix kProjectionHalfHeight
                  (fdiv (float_of_int (eglQuerySurface_WIDTH env))
                     (float_of_int (eglQuerySurface_HEIGHT env)))
                  kProjectionNearPlane kProjectionFarPlane) @ [GlClear] @ rest
           \<and> filter is_upload rest = [])
        \<and> \<not> shaderNeedsNewProjectionMatrix_' (snd (render env r))"
    if "shaderNeedsNewProjectionMatrix_' r1" "shader_' r = Some sh" "shaderRed_' r = Some shRed"
  proof -
    define pc where "pc = projection_calls sh shRed
               (OrthographicMatrix kProjectionHalfHeight
                  (fdiv (float_of_int (eglQuerySurface_WIDTH env))
                     (float_of_int (eglQuerySurface_HEIGHT env)))
                  kProjectionNearPlane kProjectionFarPlane)"
    define r2 where "r2 = r1\<lparr>calls := calls r1 @ pc, shaderNeedsNewProjectionMatrix_' := False\<rparr>"
    have p: "render_projection r1 = (None, r2)"
      using that r1_fields
      by (simp add: render_projection_def Let_def activate_def deactivate_def
            setProjectionMatrix_def projection_calls_def pc_def r2_def)
    obtain rest where rest:
      "snd (render env r) = r2\<lparr>calls := calls r2 @ [GlClear] @ rest\<rparr>"
      "filter is_upload rest = []"
      using tail [of r2] by (auto simp add: eq p and_then_def)
    have "new_calls r1 (snd (render env r)) = pc @ [GlClear] @ rest"
      by (simp add: new_calls_def rest r2_def)
    moreover have "\<not> shaderNeedsNewProjectionMatrix_' (snd (render env r))"
      by (simp add: rest r2_def)
    ultimately show ?thesis using rest(2) unfolding pc_def by blast
  qed
  show ?thesis using a b c d unfolding r1_def by blast
qed

subsection \<open>Shader programs and teardown\<close>

text \<open>
  Claim C4. With an empty UV-attribute name, when both stages compile, the program links
  and the position attribute and the projection uniform resolve, \<^verbatim>\<open>loadShader\<close> returns a
  program whose UV location is \<open>-1\<close>, and \<^verbatim>\<open>drawModel\<close> on it, for every model, binds and
  enables the position attribute only, draws, and disables it: no UV pointer, no texture.
\<close>

theorem uv_attribute_optional:
  assumes "assertGlError_holds env GL_VERTEX_SHADER"
    and "assertGlError_holds env GL_FRAGMENT_SHADER"
    and "glCreateShader_ret env GL_VERTEX_SHADER \<noteq> 0"
    and "compile_status env (glCreateShader_ret env GL_VERTEX_SHADER)"
    and "glCreateShader_ret env GL_FRAGMENT_SHADER \<noteq> 0"
    and "compile_status env (glCreateShader_ret env GL_FRAGMENT_SHADER)"
    and "glCreateProgram_ret env \<noteq> 0"
    and "link_status env (glCreateProgram_ret env)"
    and "glGetAttribLocation_ret env (glCreateProgram_ret env) positionAttributeName \<noteq> - 1"
    and "glGetUniformLocation_ret env (glCreateProgram_ret env) projectionMatrixUniformName \<noteq> - 1"
  shows "\<exists>s gl'.
           loadShader env vertexSource fragmentSource positionAttributeName []
             projectionMatrixUniformName gl = (Inr (Some s), gl')
           \<and> uv_' s = - 1
           \<and> (\<forall>model gl0.
                 drawModel s model gl0 =
                   (None, gl0 @ [GlVertexAttribPointer (position_' s) 3 (vertices_' model) PositionField,
                                 GlEnableVertexAttribArray (position_' s),
                                 GlDrawElements (length (indices_' model)) (indices_' model),
                                 GlDisableVertexAttribArray (position_' s)]))"
  using assms
  by (simp add: loadShader_def loadShader_stage_def Let_def drawModel_def)

text \<open>Witness for C4: the solid-colour program of \<^verbatim>\<open>initRenderer\<close> on a driver that accepts it.\<close>

theorem uv_attribute_optional_witness:
  "assertGlError_holds example_gl_env GL_VERTEX_SHADER
   \<and> assertGlError_holds example_gl_env GL_FRAGMENT_SHADER
   \<and> glCreateShader_ret example_gl_env GL_VERTEX_SHADER \<noteq> 0
   \<and> compile_status example_gl_env (glCreateShader_ret example_gl_env GL_VERTEX_SHADER)
   \<and> glCreateShader_ret example_gl_env GL_FRAGMENT_SHADER \<noteq> 0
   \<and> compile_status example_gl_env (glCreateShader_ret example_gl_env GL_FRAGMENT_SHADER)
   \<and> glCreateProgram_ret example_gl_env \<noteq> 0
   \<and> link_status example_gl_env (glCreateProgram_ret example_gl_env)
   \<and> glGetAttribLocation_ret example_gl_env (glCreateProgram_ret example_gl_env) ''inPosition'' \<noteq> - 1
   \<and> glGetUniformLocation_ret example_gl_env (glCreateProgram_ret example_gl_env) ''uProjection'' \<noteq> - 1
   \<and> (\<exists>s gl'.
           loadShader example_gl_env vertexRed fragmentSolidRed ''inPosition'' []
             ''uProjection'' [] = (Inr (Some s), gl')
           \<and> uv_' s = - 1
           \<and> (\<forall>model gl0.
                 drawModel s model gl0 =
                   (None, gl0 @ [GlVertexAttribPointer (position_' s) 3 (vertices_' model) PositionField,
                                 GlEnableVertexAttribArray (position_' s),
                                 GlDrawElements (length (indices_' model)) (indices_' model),
                                 GlDisableVertexAttribArray (position_' s)])))"
proof -
  have h: "assertGlError_holds example_gl_env GL_VERTEX_SHADER"
    "assertGlError_holds example_gl_env GL_FRAGMENT_SHADER"
    "glCreateShader_ret example_gl_env GL_VERTEX_SHADER \<noteq> 0"
    "compile_status example_gl_env (glCreateShader_ret example_gl_env GL_VERTEX_SHADER)"
    "glCreateShader_ret example_gl_env GL_FRAGMENT_SHADER \<noteq> 0"
    "compile_status example_gl_env (glCreateShader_ret example_gl_env GL_FRAGMENT_SHADER)"
    "glCreateProgram_ret example_gl_env \<noteq> 0"
    "link_status example_gl_env (glCreateProgram_ret example_gl_env)"
    "glGetAttribLocation_ret example_gl_env (glCreateProgram_ret example_gl_env) ''inPosition'' \<noteq> - 1"
    "glGetUniformLocation_ret example_gl_env (glCreateProgram_ret example_gl_env) ''uProjection'' \<noteq> - 1"
    by (simp_all add: example_gl_env_def)
  show ?thesis
    using h uv_attribute_optional [OF h, of vertexRed fragmentSolidRed "[]"] by blast
qed

text \<open>
  Claim C9. From a state in which a null display has no context and no surface left, the
  destructor releases the context (if any), then the surface (if any), then the display,
  skipping a handle that is already null; afterwards the three handles are null, and
  running it again changes nothing.
\<close>

theorem teardown_order_idempotent:
  assumes "display_' r = EGL_NO_DISPLAY \<Longrightarrow>
             context_' r = EGL_NO_CONTEXT \<and> surface_' r = EGL_NO_SURFACE"
  shows "new_calls r (Renderer_dtor r) =
           (if display_' r \<noteq> EGL_NO_DISPLAY then
              [EglMakeCurrent (display_' r) EGL_NO_SURFACE EGL_NO_SURFACE EGL_NO_CONTEXT]
              @ (if context_' r \<noteq> EGL_NO_CONTEXT
                 then [EglDestroyContext (display_' r) (context_' r)] else [])
              @ (if surface_' r \<noteq> EGL_NO_SURFACE
                 then [EglDestroySurface (display_' r) (surface_' r)] else [])
              @ [EglTerminate (display_' r)]
            else [])
         \<and> context_' (Renderer_dtor r) = EGL_NO_CONTEXT
         \<and> surface_' (Renderer_dtor r) = EGL_NO_SURFACE
         \<and> display_' (Renderer_dtor r) = EGL_NO_DISPLAY
         \<and> Renderer_dtor (Renderer_dtor r) = Renderer_dtor r"
  using assms by (auto simp add: Renderer_dtor_def Let_def new_calls_def)

text \<open>Witness for C9: a Renderer whose context is already released.\<close>

theorem teardown_order_idempotent_witness:
  "display_' (example_renderer\<lparr>context_' := EGL_NO_CONTEXT\<rparr>) \<noteq> EGL_NO_DISPLAY
   \<and> new_calls (example_renderer\<lparr>context_' := EGL_NO_CONTEXT\<rparr>)
       (Renderer_dtor (example_renderer\<lparr>context_' := EGL_NO_CONTEXT\<rparr>)) =
     [EglMakeCurrent 1 EGL_NO_SURFACE EGL_NO_SURFACE EGL_NO_CONTEXT, EglDestroySurface 1 2,
      EglTerminate 1]
   \<and> context_' (Renderer_dtor (example_renderer\<lparr>context_' := EGL_NO_CONTEXT\<rparr>)) = EGL_NO_CONTEXT
   \<and> surface_' (Renderer_dtor (example_renderer\<lparr>context_' := EGL_NO_CONTEXT\<rparr>)) = EGL_NO_SURFACE
   \<and> display_' (Renderer_dtor (example_renderer\<lparr>context_' := EGL_NO_CONTEXT\<rparr>)) = EGL_NO_DISPLAY
   \<and> Renderer_dtor (Renderer_dtor (example_renderer\<lparr>context_' := EGL_NO_CONTEXT\<rparr>)) =
       Renderer_dtor (example_renderer\<lparr>context_' := EGL_NO_CONTEXT\<rparr>)"
  using teardown_order_idempotent [of "example_renderer\<lparr>context_' := EGL_NO_CONTEXT\<rparr>"]
  by (simp add: example_renderer_def EGL_NO_DISPLAY_def EGL_NO_SURFACE_def EGL_NO_CONTEXT_def)

subsection \<open>The texture cache\<close>

lemma getOrLoadTexture_hit:
  "textureCache_' r k = Some t \<Longrightarrow> getOrLoadTexture env r k = (Some t, r)"
  by (simp add: getOrLoadTexture_def)

lemma getOrLoadTexture_no_manager:
  "textureCache_' r k = None \<Longrightarrow> \<not> app_assetManager r \<Longrightarrow> getOrLoadTexture env r k = (None, r)"
  by (simp add: getOrLoadTexture_def)

lemma getOrLoadTexture_miss:
  "textureCache_' r k = None \<Longrightarrow> app_assetManager r \<Longrightarrow>
   getOrLoadTexture env r k =
     (loadAsset_ret env (calls r) k,
      r\<lparr>calls := calls r @ [LoadAsset k (loadAsset_ret env (calls r) k)],
        textureCache_' := (case loadAsset_ret env (calls r) k of
                             None \<Rightarrow> textureCache_' r
                           | Some x \<Rightarrow> (textureCache_' r)(k \<mapsto> x))\<rparr>)"
  by (simp add: getOrLoadTexture_def Let_def split: option.splits)

text \<open>One request, seen from another key, and from its own key.\<close>

lemma getOrLoadTexture_other_key:
  assumes "a \<noteq> k"
  shows "\<exists>new. calls (snd (getOrLoadTexture env r a)) = calls r @ new
           \<and> filter (is_load k) new = []
           \<and> textureCache_' (snd (getOrLoadTexture env r a)) k = textureCache_' r k"
proof (cases "textureCache_' r a = None \<and> app_assetManager r")
  case True
  then show ?thesis using assms
    by (intro exI [of _ "[LoadAsset a (loadAsset_ret env (calls r) a)]"])
       (simp add: getOrLoadTexture_miss split: option.splits)
next
  case False
  then have "snd (getOrLoadTexture env r a) = r"
    by (auto simp add: getOrLoadTexture_def split: option.splits)
  then show ?thesis by (intro exI [of _ "[]"]) simp
qed

lemma getOrLoadTexture_own_key:
  "\<exists>new. calls (snd (getOrLoadTexture env r a)) = calls r @ new
     \<and> length (filter (is_successful_load a) new) \<le> 1
     \<and> (fst (getOrLoadTexture env r a) = None \<longrightarrow> filter (is_successful_load a) new = [])"
proof (cases "textureCache_' r a = None \<and> app_assetManager r")
  case True
  then show ?thesis
    by (intro exI [of _ "[LoadAsset a (loadAsset_ret env (calls r) a)]"])
       (auto simp add: getOrLoadTexture_miss split: option.splits)
next
  case False
  then have "snd (getOrLoadTexture env r a) = r"
    by (auto simp add: getOrLoadTexture_def split: option.splits)
  then show ?thesis by (intro exI [of _ "[]"]) simp
qed

lemma getOrLoadTexture_result_cached:
  "fst (getOrLoadTexture env r a) = Some t \<Longrightarrow>
   textureCache_' (snd (getOrLoadTexture env r a)) a = Some t"
  by (auto simp add: getOrLoadTexture_def Let_def split: option.splits if_splits)

lemma successful_load_is_load:
  "filter (is_load k) cs = [] \<Longrightarrow> filter (is_successful_load k) cs = []"
proof (induction cs)
  case Nil
  then show ?case by simp
next
  case (Cons c cs)
  then show ?case
    by (cases "(k, c)" rule: is_successful_load.cases) (auto split: if_splits)
qed

lemma getOrLoadTextures_length: "length (fst (getOrLoadTextures env ks r)) = length ks"
  by (induction ks arbitrary: r) (simp_all add: case_prod_beta Let_def)

lemma getOrLoadTextures_Cons:
  "getOrLoadTextures env (a # ks) r =
     (fst (getOrLoadTexture env r a) # fst (getOrLoadTextures env ks (snd (getOrLoadTexture env r a))),
      snd (getOrLoadTextures env ks (snd (getOrLoadTexture env r a))))"
  by (simp add: case_prod_beta Let_def)

declare getOrLoadTextures.simps(2) [simp del]

lemma getOrLoadTextures_calls:
  "\<exists>new. calls (snd (getOrLoadTextures env ks r)) = calls r @ new"
proof (induction ks arbitrary: r)
  case Nil
  then show ?case by simp
next
  case (Cons a ks)
  obtain n1 where n1: "calls (snd (getOrLoadTexture env r a)) = calls r @ n1"
    using getOrLoadTexture_own_key [of env r a] by blast
  obtain n2 where n2: "calls (snd (getOrLoadTextures env ks (snd (getOrLoadTexture env r a)))) =
      calls (snd (getOrLoadTexture env r a)) @ n2"
    using Cons.IH by blast
  show ?case
    by (intro exI [of _ "n1 @ n2"]) (simp add: getOrLoadTextures_Cons n1 n2)
qed

lemma new_calls_append:
  assumes "calls r1 = calls r @ n1" and "calls r2 = calls r1 @ n2"
  shows "new_calls r r2 = n1 @ new_calls r1 r2"
  using assms by (simp add: new_calls_def)

text \<open>A sequence of requests, seen from a key that is cached at its start.\<close>

lemma cached_key_sequence:
  assumes "textureCache_' r k = Some t"
  shows "filter (is_load k) (new_calls r (snd (getOrLoadTextures env ks r))) = []
       \<and> (\<forall>t'. (k, t') \<in> set (zip ks (fst (getOrLoadTextures env ks r))) \<longrightarrow> t' = Some t)
       \<and> textureCache_' (snd (getOrLoadTextures env ks r)) k = Some t"
  using assms
proof (induction ks arbitrary: r)
  case Nil
  then show ?case by (simp add: new_calls_def)
next
  case (Cons a ks)
  define r1 where "r1 = snd (getOrLoadTexture env r a)"
  define t0 where "t0 = fst (getOrLoadTexture env r a)"
  define r2 where "r2 = snd (getOrLoadTextures env ks r1)"
  define ts where "ts = fst (getOrLoadTextures env ks r1)"
  have eq: "getOrLoadTextures env (a # ks) r = (t0 # ts, r2)"
    by (simp add: getOrLoadTextures_Cons r1_def t0_def r2_def ts_def)
  have "\<exists>n1. calls r1 = calls r @ n1 \<and> filter (is_load k) n1 = []
          \<and> textureCache_' r1 k = Some t \<and> (a = k \<longrightarrow> t0 = Some t)"
  proof (cases "a = k")
    case True
    then have "getOrLoadTexture env r a = (Some t, r)"
      using Cons.prems by (simp add: getOrLoadTexture_hit)
    then show ?thesis using Cons.prems True by (intro exI [of _ "[]"]) (simp add: r1_def t0_def)
  next
    case False
    then show ?thesis
      using getOrLoadTexture_other_key [of a k env r] Cons.prems unfolding r1_def by auto
  qed
  then obtain n1 where n1: "calls r1 = calls r @ n1" "filter (is_load k) n1 = []"
    "textureCache_' r1 k = Some t" "a = k \<longrightarrow> t0 = Some t"
    by blast
  obtain n2 where n2: "calls r2 = calls r1 @ n2"
    unfolding r2_def using getOrLoadTextures_calls by blast
  have ih: "filter (is_load k) (new_calls r1 r2) = []"
    "\<forall>t'. (k, t') \<in> set (zip ks ts) \<longrightarrow> t' = Some t"
    "textureCache_' r2 k = Some t"
    using Cons.IH [OF n1(3)] unfolding r2_def ts_def by simp_all
  have "filter (is_load k) (new_calls r r2) = []"
    by (simp add: new_calls_append [OF n1(1) n2] n1(2) ih(1))
  moreover have "\<forall>t'. (k, t') \<in> set (zip (a # ks) (t0 # ts)) \<longrightarrow> t' = Some t"
    using ih(2) n1(4) by auto
  ultimately show ?case unfolding eq fst_conv snd_conv using ih(3) by simp
qed

lemma sequence_successful_loads:
  "length (filter (is_successful_load k) (new_calls r (snd (getOrLoadTextures env ks r)))) \<le> 1"
proof (induction ks arbitrary: r)
  case Nil
  then show ?case by (simp add: new_calls_def)
next
  case (Cons a ks)
  define r1 where "r1 = snd (getOrLoadTexture env r a)"
  define t0 where "t0 = fst (getOrLoadTexture env r a)"
  define r2 where "r2 = snd (getOrLoadTextures env ks r1)"
  have eq: "snd (getOrLoadTextures env (a # ks) r) = r2"
    by (simp add: getOrLoadTextures_Cons r1_def r2_def)
  obtain n2 where n2: "calls r2 = calls r1 @ n2"
    unfolding r2_def using getOrLoadTextures_calls by blast
  have ih: "length (filter (is_successful_load k) (new_calls r1 r2)) \<le> 1"
    unfolding r2_def by (rule Cons.IH)
  show ?case
  proof (cases "a = k")
    case False
    obtain n1 where n1: "calls r1 = calls r @ n1" "filter (is_load k) n1 = []"
      using getOrLoadTexture_other_key [OF False, of env r] unfolding r1_def by blast
    have "filter (is_successful_load k) n1 = []"
      using n1(2) by (rule successful_load_is_load)
    then show ?thesis
      unfolding eq using ih by (simp add: new_calls_append [OF n1(1) n2])
  next
    case True
    have "\<exists>n1. calls r1 = calls r @ n1
             \<and> length (filter (is_successful_load a) n1) \<le> 1
             \<and> (t0 = None \<longrightarrow> filter (is_successful_load a) n1 = [])"
      unfolding r1_def t0_def by (rule getOrLoadTexture_own_key)
    then obtain n1 where n1: "calls r1 = calls r @ n1"
      "length (filter (is_successful_load k) n1) \<le> 1"
      "t0 = None \<longrightarrow> filter (is_successful_load k) n1 = []"
      using True by auto
    show ?thesis
    proof (cases t0)
      case None
      then show ?thesis
        unfolding eq using ih n1(3) by (simp add: new_calls_append [OF n1(1) n2])
    next
      case (Some t)
      then have "textureCache_' r1 k = Some t"
        using getOrLoadTexture_result_cached [of env r a t] unfolding r1_def t0_def True by simp
      then have "filter (is_load k) (new_calls r1 r2) = []"
        unfolding r2_def using cached_key_sequence [of r1 k t env ks] by simp
      then have "filter (is_successful_load k) (new_calls r1 r2) = []"
        by (rule successful_load_is_load)
      then show ?thesis
        unfolding eq using n1(2) by (simp add: new_calls_append [OF n1(1) n2])
    qed
  qed
qed

lemma sequence_same_handle:
  "(k, Some t1) \<in> set (zip ks (fst (getOrLoadTextures env ks r))) \<Longrightarrow>
   (k, Some t2) \<in> set (zip ks (fst (getOrLoadTextures env ks r))) \<Longrightarrow> t1 = t2"
proof (induction ks arbitrary: r)
  case Nil
  then show ?case by simp
next
  case (Cons a ks)
  define r1 where "r1 = snd (getOrLoadTexture env r a)"
  define t0 where "t0 = fst (getOrLoadTexture env r a)"
  have eq: "fst (getOrLoadTextures env (a # ks) r) = t0 # fst (getOrLoadTextures env ks r1)"
    by (simp add: getOrLoadTextures_Cons r1_def t0_def)
  have cached: "textureCache_' r1 a = Some t" if "t0 = Some t" for t
    using getOrLoadTexture_result_cached [of env r a t] that unfolding r1_def t0_def by simp
  have later: "t' = Some t"
    if "a = k" "t0 = Some t" "(k, t') \<in> set (zip ks (fst (getOrLoadTextures env ks r1)))" for t t'
    using cached_key_sequence [of r1 k t env ks] cached that by blast
  from Cons.prems have
    p1: "(a = k \<and> t0 = Some t1) \<or> (k, Some t1) \<in> set (zip ks (fst (getOrLoadTextures env ks r1)))" and
    p2: "(a = k \<and> t0 = Some t2) \<or> (k, Some t2) \<in> set (zip ks (fst (getOrLoadTextures env ks r1)))"
    unfolding eq by auto
  show ?case
    using p1 p2 later Cons.IH [of r1] by auto
qed

text \<open>
  Claim C1, as amended. A cache hit returns the cached handle and calls nothing; a miss
  without an asset manager returns null and calls nothing; a miss with one calls the
  loader once, caches a successful result and leaves the cache as it was on a failure.
  Over any sequence of requests, a key is loaded successfully at most once, a key cached
  at the start is never loaded and every request for it returns that handle, and all
  non-null handles returned for one key are the same.
\<close>

theorem texture_cache_loads:
  "(textureCache_' r k = Some t \<longrightarrow> getOrLoadTexture env r k = (Some t, r))
   \<and> (textureCache_' r k = None \<and> \<not> app_assetManager r \<longrightarrow>
        getOrLoadTexture env r k = (None, r))
   \<and> (textureCache_' r k = None \<and> app_assetManager r \<longrightarrow>
        getOrLoadTexture env r k =
          (loadAsset_ret env (calls r) k,
           r\<lparr>calls := calls r @ [LoadAsset k (loadAsset_ret env (calls r) k)],
             textureCache_' := (case loadAsset_ret env (calls r) k of
                                  None \<Rightarrow> textureCache_' r
                                | Some x \<Rightarrow> (textureCache_' r)(k \<mapsto> x))\<rparr>))
   \<and> length (filter (is_successful_load k)
                (new_calls r (snd (getOrLoadTextures env ks r)))) \<le> 1
   \<and> (textureCache_' r k = Some t \<longrightarrow>
        filter (is_load k) (new_calls r (snd (getOrLoadTextures env ks r))) = []
        \<and> (\<forall>t'. (k, t') \<in> set (zip ks (fst (getOrLoadTextures env ks r))) \<longrightarrow> t' = Some t))
   \<and> (\<forall>t1 t2. (k, Some t1) \<in> set (zip ks (fst (getOrLoadTextures env ks r)))
                \<and> (k, Some t2) \<in> set (zip ks (fst (getOrLoadTextures env ks r)))
                \<longrightarrow> t1 = t2)"
proof -
  have a: "textureCache_' r k = Some t \<longrightarrow> getOrLoadTexture env r k = (Some t, r)"
    by (simp add: getOrLoadTexture_hit)
  have b: "textureCache_' r k = None \<and> \<not> app_assetManager r \<longrightarrow>
        getOrLoadTexture env r k = (None, r)"
    by (simp add: getOrLoadTexture_no_manager)
  have c: "textureCache_' r k = None \<and> app_assetManager r \<longrightarrow>
        getOrLoadTexture env r k =
          (loadAsset_ret env (calls r) k,
           r\<lparr>calls := calls r @ [LoadAsset k (loadAsset_ret env (calls r) k)],
             textureCache_' := (case loadAsset_ret env (calls r) k of
                                  None \<Rightarrow> textureCache_' r
                                | Some x \<Rightarrow> (textureCache_' r)(k \<mapsto> x))\<rparr>)"
    using getOrLoadTexture_miss [of r k env] by simp
  have d: "length (filter (is_successful_load k)
                (new_calls r (snd (getOrLoadTextures env ks r)))) \<le> 1"
    by (rule sequence_successful_loads)
  have e: "textureCache_' r k = Some t \<longrightarrow>
        filter (is_load k) (new_calls r (snd (getOrLoadTextures env ks r))) = []
        \<and> (\<forall>t'. (k, t') \<in> set (zip ks (fst (getOrLoadTextures env ks r))) \<longrightarrow> t' = Some t)"
    using cached_key_sequence [of r k t env ks] by simp
  have f: "\<forall>t1 t2. (k, Some t1) \<in> set (zip ks (fst (getOrLoadTextures env ks r)))
                \<and> (k, Some t2) \<in> set (zip ks (fst (getOrLoadTextures env ks r)))
                \<longrightarrow> t1 = t2"
    using sequence_same_handle [of k _ ks env r] by blast
  show ?thesis using a b c d e f by (intro conjI)
qed

text \<open>Witness for C1: a miss that loads, a miss without an asset manager, and a hit.\<close>

theorem texture_cache_loads_witness:
  "textureCache_' example_renderer ''android_robot.png'' = None
   \<and> app_assetManager example_renderer
   \<and> fst (getOrLoadTexture example_env example_renderer ''android_robot.png'') =
        Some (TextureAsset 7)
   \<and> new_calls example_renderer
        (snd (getOrLoadTextures example_env [''android_robot.png'', ''android_robot.png'']
           example_renderer)) = [LoadAsset ''android_robot.png'' (Some (TextureAsset 7))]
   \<and> fst (getOrLoadTextures example_env [''android_robot.png'', ''android_robot.png'']
           example_renderer) = [Some (TextureAsset 7), Some (TextureAsset 7)]
   \<and> \<not> app_assetManager (example_renderer\<lparr>app_assetManager := False\<rparr>)
   \<and> getOrLoadTexture example_env (example_renderer\<lparr>app_assetManager := False\<rparr>)
        ''android_robot.png'' = (None, example_renderer\<lparr>app_assetManager := False\<rparr>)
   \<and> textureCache_'
        (example_renderer\<lparr>textureCache_' := [''android_robot.png'' \<mapsto> TextureAsset 7]\<rparr>)
        ''android_robot.png'' = Some (TextureAsset 7)
   \<and> getOrLoadTexture failing_loader_env
        (example_renderer\<lparr>textureCache_' := [''android_robot.png'' \<mapsto> TextureAsset 7]\<rparr>)
        ''android_robot.png'' =
       (Some (TextureAsset 7),
        example_renderer\<lparr>textureCache_' := [''android_robot.png'' \<mapsto> TextureAsset 7]\<rparr>)"
  using texture_cache_loads [of example_renderer "''android_robot.png''" "TextureAsset 7"
          example_env "[''android_robot.png'', ''android_robot.png'']"]
        texture_cache_loads [of "example_renderer\<lparr>app_assetManager := False\<rparr>"
          "''android_robot.png''" "TextureAsset 7" example_env "[]"]
        texture_cache_loads [of
          "example_renderer\<lparr>textureCache_' := [''android_robot.png'' \<mapsto> TextureAsset 7]\<rparr>"
          "''android_robot.png''" "TextureAsset 7" failing_loader_env "[]"]
  by (simp add: example_renderer_def example_env_def failing_loader_env_def new_calls_def
        getOrLoadTexture_def getOrLoadTextures_Cons Let_def)

text \<open>
  Counterexample for C1 as stated: when the loader fails, two requests for one key call
  the loader twice.
\<close>

theorem loader_called_twice_counterexample:
  "filter (is_load ''android_robot.png'')
     (new_calls example_renderer
        (snd (getOrLoadTextures failing_loader_env [''android_robot.png'', ''android_robot.png'']
                example_renderer))) =
   [LoadAsset ''android_robot.png'' None, LoadAsset ''android_robot.png'' None]"
  by (simp add: example_renderer_def failing_loader_env_def new_calls_def
        getOrLoadTexture_def getOrLoadTextures_Cons Let_def)

subsection \<open>A null input buffer, and two paths on which the code fails\<close>

text \<open>
  Claim C10. With a null input buffer \<^verbatim>\<open>handleInput\<close> returns at once: the Renderer (both
  model lists, the texture cache, the depth counter, the calls made) is unchanged.
\<close>

theorem handleInput_null_buffer: "handleInput env None r = (None, r)"
  by (simp add: handleInput_def)

text \<open>
  Claim C2 fails on the code: when the linked program lacks the position attribute, or the
  projection uniform, \<^verbatim>\<open>loadShader\<close> deletes the program and returns null at once; the
  two compiled stages (shaders 1 and 2) are never deleted.
\<close>

theorem loadShader_leaks_stages:
  "loadShader no_position_gl_env vertex fragment ''inPosition'' ''inUV'' ''uProjection'' [] =
     (Inr None,
      [GlCreateShader GL_VERTEX_SHADER, GlShaderSource 1 vertex, GlCompileShader 1,
       GlCreateShader GL_FRAGMENT_SHADER, GlShaderSource 2 fragment, GlCompileShader 2,
       GlCreateProgram, GlAttachShader 3 1, GlAttachShader 3 2, GlLinkProgram 3,
       GlDeleteProgram 3])
   \<and> loadShader no_projection_gl_env vertex fragment ''inPosition'' ''inUV'' ''uProjection'' [] =
     (Inr None,
      [GlCreateShader GL_VERTEX_SHADER, GlShaderSource 1 vertex, GlCompileShader 1,
       GlCreateShader GL_FRAGMENT_SHADER, GlShaderSource 2 fragment, GlCompileShader 2,
       GlCreateProgram, GlAttachShader 3 1, GlAttachShader 3 2, GlLinkProgram 3,
       GlDeleteProgram 3])"
  by (simp add: loadShader_def loadShader_stage_def no_position_gl_env_def
        no_projection_gl_env_def example_gl_env_def Let_def)

text \<open>
  Claim C3 fails on the code: when the texture cannot be loaded, \<^verbatim>\<open>createModels\<close> still
  appends a model, with a null texture, to the textured list, and the next frame
  dereferences that null handle in the texture-sampling program.
\<close>

theorem createModels_untextured_model:
  "map spTexture_' (models_' (createModels failing_loader_env example_renderer)) = [None]
   \<and> fst (render failing_loader_env (createModels failing_loader_env example_renderer)) =
       Some NullDereference"
  by (simp add: render_def render_projection_def render_models_def and_then_def
        updateRenderArea_def createModels_def getOrLoadTexture_def failing_loader_env_def
        example_renderer_def Let_def activate_def deactivate_def setProjectionMatrix_def
        drawModel_def example_texture_shader_def example_red_shader_def)

subsection \<open>The frame on the demo scene\<close>

lemmas example_defs = example_renderer_def example_env_def example_texture_shader_def
  example_red_shader_def

lemmas render_defs = render_def render_projection_def render_models_def and_then_def
  updateRenderArea_def activate_def deactivate_def setProjectionMatrix_def drawModel_def Let_def

lemmas model_defs = createModels_def createBackground_def getOrLoadTexture_def

text \<open>Witness for C6: the frame after the demo models and the background are created.\<close>

theorem render_draw_order_witness:
  "modelsRed_' (createBackground (createModels example_env example_renderer)) \<noteq> []
   \<and> models_' (createBackground (createModels example_env example_renderer)) \<noteq> []
   \<and> fst (render example_env (createBackground (createModels example_env example_renderer)))
        \<noteq> Some NullDereference
   \<and> (\<exists>shRed sh pre.
         shaderRed_' (createBackground (createModels example_env example_renderer)) = Some shRed
         \<and> shader_' (createBackground (createModels example_env example_renderer)) = Some sh
         \<and> new_calls (createBackground (createModels example_env example_renderer))
              (snd (render example_env
                      (createBackground (createModels example_env example_renderer)))) =
             pre @ [GlClear]
               @ batch_calls shRed
                   (modelsRed_' (createBackground (createModels example_env example_renderer)))
               @ batch_calls sh
                   (models_' (createBackground (createModels example_env example_renderer)))
               @ [EglSwapBuffers
                    (display_' (createBackground (createModels example_env example_renderer)))
                    (surface_' (createBackground (createModels example_env example_renderer)))]
         \<and> filter is_draw pre = []
         \<and> filter is_submission
              (batch_calls shRed
                 (modelsRed_' (createBackground (createModels example_env example_renderer)))) =
             concat (map (submission_of shRed)
                       (modelsRed_' (createBackground (createModels example_env example_renderer))))
         \<and> filter is_submission
              (batch_calls sh
                 (models_' (createBackground (createModels example_env example_renderer)))) =
             concat (map (submission_of sh)
                       (models_' (createBackground (createModels example_env example_renderer))))
         \<and> filter is_draw
              (new_calls (createBackground (createModels example_env example_renderer))
                 (snd (render example_env
                         (createBackground (createModels example_env example_renderer))))) =
             map draw_of
               (modelsRed_' (createBackground (createModels example_env example_renderer))
                @ models_' (createBackground (createModels example_env example_renderer))))"
proof -
  have h1: "modelsRed_' (createBackground (createModels example_env example_renderer)) \<noteq> []"
    by (simp add: model_defs example_defs Let_def)
  have h2: "models_' (createBackground (createModels example_env example_renderer)) \<noteq> []"
    by (simp add: model_defs example_defs Let_def)
  have h3: "fst (render example_env (createBackground (createModels example_env example_renderer)))
        \<noteq> Some NullDereference"
    by (simp add: model_defs example_defs render_defs)
  show ?thesis
    using h1 h2 h3 render_draw_order [OF h1 h2 h3] by (intro conjI)
qed

text \<open>Witness for C5: the first frame (the size changes from the sentinel) and the second.\<close>

theorem resize_idempotent_witness:
  "shaderNeedsNewProjectionMatrix_' (updateRenderArea 1000 1600 example_renderer)
   \<and> shader_' example_renderer = Some example_texture_shader
   \<and> shaderRed_' example_renderer = Some example_red_shader
   \<and> updateRenderArea 1000 1600 (updateRenderArea 1000 1600 example_renderer) =
       updateRenderArea 1000 1600 example_renderer
   \<and> \<not> shaderNeedsNewProjectionMatrix_' (snd (render example_env example_renderer))
   \<and> width_' (snd (render example_env example_renderer)) = 1000
   \<and> height_' (snd (render example_env example_renderer)) = 1600
   \<and> updateRenderArea 1000 1600 (snd (render example_env example_renderer)) =
       snd (render example_env example_renderer)
   \<and> filter is_upload
        (new_calls (snd (render example_env example_renderer))
           (snd (render example_env (snd (render example_env example_renderer))))) = []"
proof -
  have h: "shaderNeedsNewProjectionMatrix_' (updateRenderArea 1000 1600 example_renderer)"
    "shader_' example_renderer = Some example_texture_shader"
    "shaderRed_' example_renderer = Some example_red_shader"
    by (simp_all add: example_defs updateRenderArea_def)
  have q: "eglQuerySurface_WIDTH example_env = 1000" "eglQuerySurface_HEIGHT example_env = 1600"
    by (simp_all add: example_env_def)
  have first: "\<not> shaderNeedsNewProjectionMatrix_' (snd (render example_env example_renderer))"
    "updateRenderArea 1000 1600 (updateRenderArea 1000 1600 example_renderer) =
       updateRenderArea 1000 1600 example_renderer"
    using h resize_idempotent [of 1000 1600 example_renderer example_env
        example_texture_shader example_red_shader]
    unfolding q by blast+
  have dims: "width_' (snd (render example_env example_renderer)) = 1000"
    "height_' (snd (render example_env example_renderer)) = 1600"
    by (simp_all add: example_defs render_defs)
  have same: "updateRenderArea 1000 1600 (snd (render example_env example_renderer)) =
       snd (render example_env example_renderer)"
    using dims resize_idempotent [of 1000 1600 "snd (render example_env example_renderer)"
        example_env example_texture_shader example_red_shader]
    by blast
  have second: "filter is_upload
        (new_calls (snd (render example_env example_renderer))
           (snd (render example_env (snd (render example_env example_renderer))))) = []"
    using first(1) same resize_idempotent [of 1000 1600 "snd (render example_env example_renderer)"
        example_env example_texture_shader example_red_shader]
    unfolding q by simp
  show ?thesis using h first dims same second by (intro conjI)
qed

subsection \<open>The depth counter in single precision\<close>

lemma bitlen_0 [simp]: "bitlen 0 = 0"
  by (simp add: bitlen.simps)












































subsection \<open>The mapping from pixels to world coordinates\<close>






























end
